theory Spec2Isabelle
  imports Complex_Main "HOL-Library.Word"
begin

section \<open>Types (include/DicomViewer/Types.h)\<close>

text \<open>
  The embedding follows the C++ sources. A \<^verbatim>\<open>uint8_t\<close> is an \<^typ>\<open>8 word\<close>, a C
  \<^verbatim>\<open>int\<close> is an \<^typ>\<open>int\<close> whose overflow is an explicit error, a \<^verbatim>\<open>uint32_t\<close> is a
  \<^typ>\<open>32 word\<close> and a \<^verbatim>\<open>size_t\<close> is a \<^typ>\<open>nat\<close> with the wrap-around at \<open>2 ^ 64\<close>
  written out. The stored window center and width are finite doubles, held as reals.

  The arithmetic on doubles of \<open>buildWindowLevelLut\<close> is read in two ways. In
  \<open>buildWindowLevelLutDouble\<close> it is the arithmetic of IEEE 754 binary64: every
  operation rounds to nearest, ties to even, with subnormals, infinities and NaN. In
  \<open>buildWindowLevelLut\<close> every operation is the exact operation on the reals. The values
  of the entries (C1) are stated on the first reading; the saturated ends, the order of
  the entries and the blank table (C2 to C5) are stated on the second.

  Two ranges of inputs recur in the statements. The lookup table is built for domains
  whose number of values fits a C \<^verbatim>\<open>int\<close>: \<open>buildWindowLevelLut\<close> is private, and
  \<open>convertMonochrome\<close>, its only caller, passes \<open>[0,255]\<close>, \<open>[0,65535]\<close> or
  \<open>[-32768,32767]\<close>. Images are converted for widths and heights below \<open>2 ^ 31\<close>, the
  values that the cast to \<^verbatim>\<open>int\<close> for \<^verbatim>\<open>QImage\<close> preserves: the setters of
  \<open>CDicomImage\<close> are private to the loader, which takes the dimensions from the 16-bit
  attributes Rows and Columns.
\<close>

type_synonym u8 = "8 word"

datatype EPhotometricInterpretation = Monochrome1 | Monochrome2 | Rgb | PaletteColor | Unknown

datatype EPaletteType = Grayscale | Inverted | Hot | Cool | Rainbow | Bone | Copper | Ocean

record SWindowLevel =
  center :: real
  width :: real

record SImageDimensions =
  dimWidth :: "32 word"
  dimHeight :: "32 word"
  bitsAllocated :: "16 word"
  bitsStored :: "16 word"
  highBit :: "16 word"
  samplesPerPixel :: "16 word"
  dimIsSigned :: bool

definition kMinWindowWidth :: int where
  "kMinWindowWidth = 1"

section \<open>Failures of the C++ code as values\<close>

datatype error =
    DivisionByZero
  | CastOutOfRange
  | IntegerOverflow
  | IndexOutOfRange
  | LutIndexOutOfRange
  | NullPointerWrite

definition INT_MAX :: int where
  "INT_MAX = 2147483647"

text \<open>The division \<^verbatim>\<open>255.0 / wl.width\<close>; a zero divisor is reported.\<close>

definition fdiv :: "real \<Rightarrow> real \<Rightarrow> error + real" where
  "fdiv a b = (if b = 0 then Inl DivisionByZero else Inr (a / b))"

text \<open>
  \<^verbatim>\<open>static_cast<uint8_t>(double)\<close> discards the fractional part (rounds toward
  zero); the behaviour is undefined when the truncated value is not a \<^verbatim>\<open>uint8_t\<close>.
\<close>

definition truncate_toward_zero :: "real \<Rightarrow> int" where
  "truncate_toward_zero x = (if 0 \<le> x then \<lfloor>x\<rfloor> else \<lceil>x\<rceil>)"

definition static_cast_u8 :: "real \<Rightarrow> error + u8" where
  "static_cast_u8 x =
     (let t = truncate_toward_zero x
      in if 0 \<le> t \<and> t \<le> 255 then Inr (word_of_int t) else Inl CastOutOfRange)"

text \<open>A counted loop that stops at the first failure and collects what each step writes.\<close>

fun mapE :: "('a \<Rightarrow> error + 'b) \<Rightarrow> 'a list \<Rightarrow> error + 'b list" where
  "mapE f [] = Inr []"
| "mapE f (x # xs) =
     (case f x of
        Inl e \<Rightarrow> Inl e
      | Inr y \<Rightarrow> (case mapE f xs of Inl e \<Rightarrow> Inl e | Inr ys \<Rightarrow> Inr (y # ys)))"

section \<open>IEEE 754 binary64 arithmetic\<close>

text \<open>
  A double is a finite real, an infinity or NaN. The two zeros are one value: no
  comparison tells them apart, and the converter divides by \<open>2.0\<close> and by a positive
  width only.
\<close>

datatype double = DFinite real | DPlusInf | DMinusInf | DNaN

text \<open>
  Rounding to nearest, ties to even. A finite double is an integer of at most 53 bits
  times a power of two whose exponent is at least \<open>-1074\<close>; \<open>ilog2 x\<close> is the exponent
  of the leading bit of \<open>x > 0\<close>, and a rounded magnitude of \<open>2 ^ 1024\<close> or more is an
  infinity.
\<close>

function bitLength :: "int \<Rightarrow> int" where
  "bitLength n = (if n \<le> 0 then 0 else 1 + bitLength (n div 2))"
  by pat_completeness auto
termination
  by (relation "measure nat") auto

declare bitLength.simps [simp del]

definition ilog2 :: "real \<Rightarrow> int" where
  "ilog2 x = (if 1 \<le> x then bitLength \<lfloor>x\<rfloor> - 1 else - bitLength (\<lceil>1 / x\<rceil> - 1))"

definition pow2 :: "int \<Rightarrow> real" where
  "pow2 q = (if 0 \<le> q then 2 ^ nat q else 1 / 2 ^ nat (- q))"

definition roundHalfEven :: "real \<Rightarrow> int" where
  "roundHalfEven y =
     (let f = \<lfloor>y\<rfloor>; r = y - real_of_int f
      in if r < 1 / 2 then f
         else if 1 / 2 < r then f + 1
         else if even f then f else f + 1)"

definition roundDouble :: "real \<Rightarrow> double" where
  "roundDouble x =
     (if x = 0 then DFinite 0
      else
        let a = \<bar>x\<bar>;
            q = max (ilog2 a - 52) (- 1074);
            m = roundHalfEven (a / pow2 q);
            r = real_of_int m * pow2 q
        in if 2 ^ 1024 \<le> r then (if 0 < x then DPlusInf else DMinusInf)
           else DFinite (if 0 < x then r else - r))"

text \<open>
  The operations: the exact result of two finite operands is rounded, and the infinities
  and NaN follow the standard.
\<close>

fun dneg :: "double \<Rightarrow> double" where
  "dneg (DFinite x) = DFinite (- x)"
| "dneg DPlusInf = DMinusInf"
| "dneg DMinusInf = DPlusInf"
| "dneg DNaN = DNaN"

fun dadd :: "double \<Rightarrow> double \<Rightarrow> double" where
  "dadd (DFinite x) (DFinite y) = roundDouble (x + y)"
| "dadd DNaN b = DNaN"
| "dadd a DNaN = DNaN"
| "dadd DPlusInf DMinusInf = DNaN"
| "dadd DMinusInf DPlusInf = DNaN"
| "dadd DPlusInf b = DPlusInf"
| "dadd a DPlusInf = DPlusInf"
| "dadd DMinusInf b = DMinusInf"
| "dadd a DMinusInf = DMinusInf"

definition dsub :: "double \<Rightarrow> double \<Rightarrow> double" where
  "dsub a b = dadd a (dneg b)"

definition infinity :: "bool \<Rightarrow> double" where
  "infinity positive = (if positive then DPlusInf else DMinusInf)"

fun dmul :: "double \<Rightarrow> double \<Rightarrow> double" where
  "dmul (DFinite x) (DFinite y) = roundDouble (x * y)"
| "dmul DNaN b = DNaN"
| "dmul a DNaN = DNaN"
| "dmul DPlusInf (DFinite y) = (if y = 0 then DNaN else infinity (0 < y))"
| "dmul DMinusInf (DFinite y) = (if y = 0 then DNaN else infinity (y < 0))"
| "dmul (DFinite x) DPlusInf = (if x = 0 then DNaN else infinity (0 < x))"
| "dmul (DFinite x) DMinusInf = (if x = 0 then DNaN else infinity (x < 0))"
| "dmul DPlusInf DPlusInf = DPlusInf"
| "dmul DMinusInf DMinusInf = DPlusInf"
| "dmul DPlusInf DMinusInf = DMinusInf"
| "dmul DMinusInf DPlusInf = DMinusInf"

fun ddiv :: "double \<Rightarrow> double \<Rightarrow> double" where
  "ddiv (DFinite x) (DFinite y) =
     (if y = 0 then (if x = 0 then DNaN else infinity (0 < x)) else roundDouble (x / y))"
| "ddiv DNaN b = DNaN"
| "ddiv a DNaN = DNaN"
| "ddiv (DFinite x) b = DFinite 0"
| "ddiv DPlusInf (DFinite y) = infinity (0 \<le> y)"
| "ddiv DMinusInf (DFinite y) = infinity (y < 0)"
| "ddiv a b = DNaN"

fun dle :: "double \<Rightarrow> double \<Rightarrow> bool" where
  "dle (DFinite x) (DFinite y) = (x \<le> y)"
| "dle DNaN b = False"
| "dle a DNaN = False"
| "dle DMinusInf b = True"
| "dle a DPlusInf = True"
| "dle a b = False"

definition dge :: "double \<Rightarrow> double \<Rightarrow> bool" where
  "dge a b = dle b a"

definition double_of_int :: "int \<Rightarrow> double" where
  "double_of_int n = DFinite (real_of_int n)"

text \<open>
  \<^verbatim>\<open>static_cast<uint8_t>\<close> of a double: undefined, as for a finite value out of range,
  for an infinity and for NaN.
\<close>

fun static_cast_u8_double :: "double \<Rightarrow> error + u8" where
  "static_cast_u8_double (DFinite x) = static_cast_u8 x"
| "static_cast_u8_double d = Inl CastOutOfRange"

section \<open>CImageConverter::buildWindowLevelLut (src/utils/CImageConverter.cpp)\<close>

text \<open>
  The function in double arithmetic. \<open>lutValueDouble\<close> is the body of the loop: the entry
  written for the raw value \<open>raw = minValue + i\<close>. The division \<^verbatim>\<open>255.0 / wl.width\<close>
  reports a zero divisor.
\<close>

definition fdivDouble :: "double \<Rightarrow> double \<Rightarrow> error + double" where
  "fdivDouble a b = (if b = DFinite 0 then Inl DivisionByZero else Inr (ddiv a b))"

definition lutValueDouble :: "double \<Rightarrow> double \<Rightarrow> double \<Rightarrow> bool \<Rightarrow> int \<Rightarrow> error + u8" where
  "lutValueDouble lowerBound upperBound scale invertForMonochrome1 raw =
     (let rawValue = double_of_int raw
      in case (if dle rawValue lowerBound then Inr 0
               else if dge rawValue upperBound then Inr 255
               else static_cast_u8_double (dmul (dsub rawValue lowerBound) scale)) of
           Inl e \<Rightarrow> Inl e
         | Inr v \<Rightarrow> Inr (if invertForMonochrome1 then 255 - v else v))"

definition buildWindowLevelLutDouble :: "SWindowLevel \<Rightarrow> int \<Rightarrow> int \<Rightarrow> bool \<Rightarrow> error + u8 list" where
  "buildWindowLevelLutDouble wl minValue0 maxValue0 invertForMonochrome1 =
     (let minValue = (if maxValue0 < minValue0 then maxValue0 else minValue0);
          maxValue = (if maxValue0 < minValue0 then minValue0 else maxValue0)
      in if maxValue - minValue + 1 > INT_MAX then Inl IntegerOverflow
         else
           let range = maxValue - minValue + 1
           in if width wl \<le> 0 then Inr (replicate (nat range) 0)
              else
                let lowerBound = dsub (DFinite (center wl)) (ddiv (DFinite (width wl)) (DFinite 2));
                    upperBound = dadd (DFinite (center wl)) (ddiv (DFinite (width wl)) (DFinite 2))
                in case fdivDouble (DFinite 255) (DFinite (width wl)) of
                     Inl e \<Rightarrow> Inl e
                   | Inr scale \<Rightarrow>
                       mapE (\<lambda>i. lutValueDouble lowerBound upperBound scale invertForMonochrome1
                                    (minValue + int i))
                         [0..<nat range])"

text \<open>
  The same function with every operation on doubles read as the exact operation on the
  reals: no rounding and no infinities. Between the saturated ends an entry of this
  reading can differ by one from the entry in double arithmetic: for center 105 and
  width 210 the entry of the raw value 42 is 51 here and 50 in
  \<open>buildWindowLevelLutDouble\<close>.
\<close>

definition lutValue :: "real \<Rightarrow> real \<Rightarrow> real \<Rightarrow> bool \<Rightarrow> int \<Rightarrow> error + u8" where
  "lutValue lowerBound upperBound scale invertForMonochrome1 raw =
     (let rawValue = real_of_int raw
      in case (if rawValue \<le> lowerBound then Inr 0
               else if rawValue \<ge> upperBound then Inr 255
               else static_cast_u8 ((rawValue - lowerBound) * scale)) of
           Inl e \<Rightarrow> Inl e
         | Inr v \<Rightarrow> Inr (if invertForMonochrome1 then 255 - v else v))"

definition buildWindowLevelLut :: "SWindowLevel \<Rightarrow> int \<Rightarrow> int \<Rightarrow> bool \<Rightarrow> error + u8 list" where
  "buildWindowLevelLut wl minValue0 maxValue0 invertForMonochrome1 =
     (let minValue = (if maxValue0 < minValue0 then maxValue0 else minValue0);
          maxValue = (if maxValue0 < minValue0 then minValue0 else maxValue0)
      in if maxValue - minValue + 1 > INT_MAX then Inl IntegerOverflow
         else
           let range = maxValue - minValue + 1
           in if width wl \<le> 0 then Inr (replicate (nat range) 0)
              else
                let lowerBound = center wl - (width wl / 2);
                    upperBound = center wl + (width wl / 2)
                in case fdiv 255 (width wl) of
                     Inl e \<Rightarrow> Inl e
                   | Inr scale \<Rightarrow>
                       mapE (\<lambda>i. lutValue lowerBound upperBound scale invertForMonochrome1
                                    (minValue + int i))
                         [0..<nat range])"

text \<open>
  A read \<^verbatim>\<open>lut[static_cast<size_t>(idx)]\<close> of the table: an index outside the vector
  (a negative \<open>idx\<close> becomes a huge \<^verbatim>\<open>size_t\<close>) is a read outside the table,
  \<open>LutIndexOutOfRange\<close>. A read outside the pixel buffer is \<open>IndexOutOfRange\<close>.
\<close>

definition lutAt :: "u8 list \<Rightarrow> int \<Rightarrow> error + u8" where
  "lutAt lut idx =
     (if 0 \<le> idx \<and> idx < int (length lut) then Inr (lut ! nat idx)
      else Inl LutIndexOutOfRange)"

text \<open>
  The entry of the built table for the raw value \<open>v\<close>, read as \<open>convertMonochrome\<close>
  reads it: at index \<open>v + lutOffset\<close> with \<open>lutOffset = -minValue\<close>.
\<close>

definition lutEntry :: "SWindowLevel \<Rightarrow> int \<Rightarrow> int \<Rightarrow> bool \<Rightarrow> int \<Rightarrow> error + u8" where
  "lutEntry wl minValue maxValue invertForMonochrome1 v =
     (case buildWindowLevelLut wl minValue maxValue invertForMonochrome1 of
        Inl e \<Rightarrow> Inl e
      | Inr lut \<Rightarrow> lutAt lut (v + (- minValue)))"

text \<open>
  The entry of the specification, in its own words (section 4.1) and in double
  arithmetic: \<open>lower\<close>, \<open>upper\<close> and \<open>scale\<close>, the two saturated cases, in between the
  product \<open>(v - lower) * scale\<close> truncated toward zero and cast to \<open>u8\<close>, and
  \<open>255 - result\<close> when \<open>invert\<close> is set. The cast has no value when the truncated
  product is not in \<open>0..255\<close>.
\<close>

fun truncatedToU8 :: "double \<Rightarrow> error + int" where
  "truncatedToU8 (DFinite x) =
     (let t = truncate_toward_zero x
      in if 0 \<le> t \<and> t \<le> 255 then Inr t else Inl CastOutOfRange)"
| "truncatedToU8 d = Inl CastOutOfRange"

definition specLutEntryDouble :: "real \<Rightarrow> real \<Rightarrow> bool \<Rightarrow> int \<Rightarrow> error + int" where
  "specLutEntryDouble c w invert v =
     (let lower = dsub (DFinite c) (ddiv (DFinite w) (DFinite 2));
          upper = dadd (DFinite c) (ddiv (DFinite w) (DFinite 2));
          scale = ddiv (DFinite 255) (DFinite w)
      in case (if dle (double_of_int v) lower then Inr 0
               else if dge (double_of_int v) upper then Inr 255
               else truncatedToU8 (dmul (dsub (double_of_int v) lower) scale)) of
           Inl e \<Rightarrow> Inl e
         | Inr result \<Rightarrow> Inr (if invert then 255 - result else result))"

text \<open>
  The entry on the exact reading, as a number: the product lies strictly between 0 and
  255 there, and truncation is the floor.
\<close>

definition specLutEntry :: "real \<Rightarrow> real \<Rightarrow> bool \<Rightarrow> int \<Rightarrow> int" where
  "specLutEntry c w invert v =
     (let lower = c - w / 2;
          upper = c + w / 2;
          scale = 255 / w;
          result = (if real_of_int v \<le> lower then 0
                    else if real_of_int v \<ge> upper then 255
                    else \<lfloor>(real_of_int v - lower) * scale\<rfloor>)
      in if invert then 255 - result else result)"

section \<open>CDicomImage (src/core/CDicomImage.h, src/core/CDicomImage.cpp)\<close>

text \<open>
  The members of the class, in the order of their declaration. The metadata object
  behind the \<^verbatim>\<open>unique_ptr\<close> is a value of any type \<open>'m\<close>, absent for a null pointer.
\<close>

record 'm CDicomImage =
  m_pixelData :: "u8 list"
  m_dimensions :: SImageDimensions
  m_photometricInterpretation :: EPhotometricInterpretation
  m_windowLevel :: SWindowLevel
  m_defaultWindowLevel :: SWindowLevel
  m_rescaleSlope :: real
  m_rescaleIntercept :: real
  m_bitsPerSample :: u8
  m_pixelSigned :: bool
  m_metadata :: "'m option"

definition pixelData :: "'m CDicomImage \<Rightarrow> u8 list" where
  "pixelData img = m_pixelData img"

definition hasPixelData :: "'m CDicomImage \<Rightarrow> bool" where
  "hasPixelData img = (m_pixelData img \<noteq> [])"

definition dimensions :: "'m CDicomImage \<Rightarrow> SImageDimensions" where
  "dimensions img = m_dimensions img"

definition photometricInterpretation :: "'m CDicomImage \<Rightarrow> EPhotometricInterpretation" where
  "photometricInterpretation img = m_photometricInterpretation img"

definition setWindowLevel :: "'m CDicomImage \<Rightarrow> SWindowLevel \<Rightarrow> 'm CDicomImage" where
  "setWindowLevel img wl = img\<lparr>m_windowLevel := wl\<rparr>"

definition windowLevel :: "'m CDicomImage \<Rightarrow> SWindowLevel" where
  "windowLevel img = m_windowLevel img"

definition defaultWindowLevel :: "'m CDicomImage \<Rightarrow> SWindowLevel" where
  "defaultWindowLevel img = m_defaultWindowLevel img"

definition resetWindowLevel :: "'m CDicomImage \<Rightarrow> 'm CDicomImage" where
  "resetWindowLevel img = img\<lparr>m_windowLevel := m_defaultWindowLevel img\<rparr>"

definition isValid :: "'m CDicomImage \<Rightarrow> bool" where
  "isValid img =
     (hasPixelData img
      \<and> dimWidth (m_dimensions img) > 0
      \<and> dimHeight (m_dimensions img) > 0
      \<and> m_photometricInterpretation img \<noteq> Unknown)"

definition setDefaultWindowLevel :: "'m CDicomImage \<Rightarrow> SWindowLevel \<Rightarrow> 'm CDicomImage" where
  "setDefaultWindowLevel img wl = img\<lparr>m_defaultWindowLevel := wl, m_windowLevel := wl\<rparr>"

definition bitsPerSample :: "'m CDicomImage \<Rightarrow> u8" where
  "bitsPerSample img = m_bitsPerSample img"

definition isPixelSigned :: "'m CDicomImage \<Rightarrow> bool" where
  "isPixelSigned img = m_pixelSigned img"

definition rescaleSlope :: "'m CDicomImage \<Rightarrow> real" where
  "rescaleSlope img = m_rescaleSlope img"

definition rescaleIntercept :: "'m CDicomImage \<Rightarrow> real" where
  "rescaleIntercept img = m_rescaleIntercept img"

definition metadata :: "'m CDicomImage \<Rightarrow> 'm option" where
  "metadata img = m_metadata img"

text \<open>
  The default-constructed image: the default member initialisers of \<open>CDicomImage\<close>,
  \<open>SImageDimensions\<close> and \<open>SWindowLevel\<close>.
\<close>

definition defaultImage :: "'m CDicomImage" where
  "defaultImage =
     \<lparr>m_pixelData = [],
      m_dimensions = \<lparr>dimWidth = 0, dimHeight = 0, bitsAllocated = 0, bitsStored = 0,
                      highBit = 0, samplesPerPixel = 1, dimIsSigned = False\<rparr>,
      m_photometricInterpretation = Unknown,
      m_windowLevel = \<lparr>center = 0, width = 1\<rparr>,
      m_defaultWindowLevel = \<lparr>center = 0, width = 1\<rparr>,
      m_rescaleSlope = 1,
      m_rescaleIntercept = 0,
      m_bitsPerSample = 8,
      m_pixelSigned = False,
      m_metadata = None\<rparr>"

section \<open>QImage and CColorPalette, as far as the converter uses them\<close>

text \<open>
  Modelled from Qt's documentation of \<^verbatim>\<open>QImage\<close>, which is not part of the repository:
  \<^verbatim>\<open>QImage(width, height, format)\<close> is a null image when the width or the height is not
  positive, and \<^verbatim>\<open>scanLine\<close> of a null image is a null pointer. A null image is \<open>None\<close>.
  A scan line holds the bytes of its pixels only (the padding of a row to a multiple of
  four bytes is not modelled), and allocation succeeds.
\<close>

datatype QImageFormat = Format_Grayscale8 | Format_RGB888

record QImage =
  qWidth :: int
  qHeight :: int
  qFormat :: QImageFormat
  qScanLines :: "u8 list list"

definition bytesPerPixelOf :: "QImageFormat \<Rightarrow> nat" where
  "bytesPerPixelOf fmt = (case fmt of Format_Grayscale8 \<Rightarrow> 1 | Format_RGB888 \<Rightarrow> 3)"

definition newQImage :: "int \<Rightarrow> int \<Rightarrow> QImageFormat \<Rightarrow> QImage option" where
  "newQImage w h fmt =
     (if w \<le> 0 \<or> h \<le> 0 then None
      else Some \<lparr>qWidth = w, qHeight = h, qFormat = fmt,
                 qScanLines = replicate (nat h) (replicate (nat w * bytesPerPixelOf fmt) 0)\<rparr>)"

text \<open>\<^verbatim>\<open>static_cast<int>\<close> of a \<^verbatim>\<open>uint32_t\<close>: the value as a signed 32-bit integer.\<close>

definition static_cast_int :: "32 word \<Rightarrow> int" where
  "static_cast_int n = sint n"

text \<open>Arithmetic on \<^verbatim>\<open>size_t\<close> wraps around at \<open>2 ^ 64\<close>.\<close>

definition size_t_wrap :: "nat \<Rightarrow> nat" where
  "size_t_wrap n = n mod 2 ^ 64"

text \<open>
  The palette is its 256-entry table \<open>m_lut\<close>, indexed by a \<^verbatim>\<open>uint8_t\<close>: a function on
  bytes. \<open>mapRgb\<close> returns the entry.
\<close>

record CColorPalette =
  m_type :: EPaletteType
  m_lut :: "u8 \<Rightarrow> u8 \<times> u8 \<times> u8"

definition mapRgb :: "CColorPalette \<Rightarrow> u8 \<Rightarrow> u8 \<times> u8 \<times> u8" where
  "mapRgb palette grayValue = m_lut palette grayValue"

text \<open>
  The default palette (\<open>CColorPalette()\<close>): type \<open>Grayscale\<close>, with the table that
  \<open>generateGrayscale\<close> fills, entry \<open>i\<close> being \<open>(i, i, i)\<close>.
\<close>

definition grayscalePalette :: CColorPalette where
  "grayscalePalette = \<lparr>m_type = Grayscale, m_lut = (\<lambda>i. (i, i, i))\<rparr>"

record CImageConverter =
  m_palette :: CColorPalette

section \<open>CImageConverter::convertMonochrome, convertRgb and toQImage\<close>

text \<open>
  The two nested loops over \<open>y\<close> and \<open>x\<close>: \<open>pixel\<close> computes the bytes of the pixel at
  \<open>index = rowOffset + x\<close>, which are then written to \<open>dstRow\<close>, the scan line \<open>y\<close> of
  \<open>result\<close>; writing to the scan line of a null image is a write through a null pointer.
\<close>

definition scanRow :: "QImage option \<Rightarrow> nat \<Rightarrow> (nat \<Rightarrow> error + u8 list) \<Rightarrow> nat \<Rightarrow> error + u8 list" where
  "scanRow result w pixel y =
     (let rowOffset = y * w
      in case mapE (\<lambda>x. case pixel (rowOffset + x) of
                           Inl e \<Rightarrow> Inl e
                         | Inr bytes \<Rightarrow>
                             (case result of
                                None \<Rightarrow> Inl NullPointerWrite
                              | Some q \<Rightarrow> Inr bytes))
                [0..<w] of
           Inl e \<Rightarrow> Inl e
         | Inr written \<Rightarrow> Inr (concat written))"

definition fillRows :: "QImage option \<Rightarrow> nat \<Rightarrow> nat \<Rightarrow> (nat \<Rightarrow> error + u8 list) \<Rightarrow> error + QImage option" where
  "fillRows result h w pixel =
     (case mapE (scanRow result w pixel) [0..<h] of
        Inl e \<Rightarrow> Inl e
      | Inr rows \<Rightarrow> Inr (map_option (\<lambda>q. q\<lparr>qScanLines := rows\<rparr>) result))"

text \<open>
  Reads of the source buffer: a byte at \<open>index\<close>, and the 16-bit sample at \<open>index\<close> of
  the buffer seen as an array of \<^verbatim>\<open>uint16_t\<close> (little-endian), each a read out of bounds
  beyond the end of the vector.
\<close>

definition readSample8 :: "u8 list \<Rightarrow> nat \<Rightarrow> error + u8" where
  "readSample8 src index =
     (if index < length src then Inr (src ! index) else Inl IndexOutOfRange)"

definition readSample16 :: "u8 list \<Rightarrow> nat \<Rightarrow> error + 16 word" where
  "readSample16 src index =
     (if 2 * index + 1 < length src
      then Inr (word_of_nat (unat (src ! (2 * index)) + 256 * unat (src ! (2 * index + 1))))
      else Inl IndexOutOfRange)"

text \<open>Lines 122 to 136: the domain of the samples, \<open>(minValue, maxValue)\<close>.\<close>

definition sampleDomain :: "bool \<Rightarrow> bool \<Rightarrow> int \<times> int" where
  "sampleDomain is16bit isSigned =
     (if is16bit then (if isSigned then (- 32768, 32767) else (0, 65535)) else (0, 255))"

text \<open>Lines 157 to 159: the sample as an \<open>int\<close>, signed or unsigned.\<close>

definition pixelValue16 :: "bool \<Rightarrow> 16 word \<Rightarrow> int" where
  "pixelValue16 isSigned s = (if isSigned then sint s else uint s)"

definition windowed16 :: "u8 list \<Rightarrow> bool \<Rightarrow> u8 list \<Rightarrow> int \<Rightarrow> nat \<Rightarrow> error + u8" where
  "windowed16 src isSigned lut lutOffset index =
     (case readSample16 src index of
        Inl e \<Rightarrow> Inl e
      | Inr s \<Rightarrow> lutAt lut (pixelValue16 isSigned s + lutOffset))"

definition windowed8 :: "u8 list \<Rightarrow> u8 list \<Rightarrow> nat \<Rightarrow> error + u8" where
  "windowed8 src lut index =
     (case readSample8 src index of
        Inl e \<Rightarrow> Inl e
      | Inr s \<Rightarrow> lutAt lut (uint s))"

definition grayBytes :: "error + u8 \<Rightarrow> error + u8 list" where
  "grayBytes r = (case r of Inl e \<Rightarrow> Inl e | Inr v \<Rightarrow> Inr [v])"

definition rgbBytes :: "(u8 \<Rightarrow> u8 \<times> u8 \<times> u8) \<Rightarrow> error + u8 \<Rightarrow> error + u8 list" where
  "rgbBytes rgbLut r =
     (case r of
        Inl e \<Rightarrow> Inl e
      | Inr v \<Rightarrow> (case rgbLut v of (r0, r1, r2) \<Rightarrow> Inr [r0, r1, r2]))"

definition convertMonochrome :: "CImageConverter \<Rightarrow> 'm CDicomImage \<Rightarrow> SWindowLevel \<Rightarrow> error + QImage option" where
  "convertMonochrome converter img wl =
     (let dims = dimensions img;
          src = pixelData img
      in if src = [] then Inr None
         else
           let pixelCount = size_t_wrap (unat (dimWidth dims) * unat (dimHeight dims));
               is16bit = (bitsPerSample img = 16);
               bytesPerPixel = (if is16bit then 2 else 1);
               expectedSize = size_t_wrap (pixelCount * bytesPerPixel)
           in if length src < expectedSize then Inr None
              else
                let useColorPalette = (m_type (m_palette converter) \<noteq> Grayscale);
                    isMonochrome1 = (photometricInterpretation img = Monochrome1);
                    isSigned = isPixelSigned img;
                    minValue = fst (sampleDomain is16bit isSigned);
                    maxValue = snd (sampleDomain is16bit isSigned)
                in case buildWindowLevelLut wl minValue maxValue isMonochrome1 of
                     Inl e \<Rightarrow> Inl e
                   | Inr lut \<Rightarrow>
                       let lutOffset = - minValue
                       in if \<not> useColorPalette
                          then
                            let result = newQImage (static_cast_int (dimWidth dims))
                                           (static_cast_int (dimHeight dims)) Format_Grayscale8
                            in if is16bit
                               then fillRows result (unat (dimHeight dims)) (unat (dimWidth dims))
                                      (\<lambda>index. grayBytes (windowed16 src isSigned lut lutOffset index))
                               else fillRows result (unat (dimHeight dims)) (unat (dimWidth dims))
                                      (\<lambda>index. grayBytes (windowed8 src lut index))
                          else
                            let rgbLut = mapRgb (m_palette converter);
                                result = newQImage (static_cast_int (dimWidth dims))
                                           (static_cast_int (dimHeight dims)) Format_RGB888
                            in if is16bit
                               then fillRows result (unat (dimHeight dims)) (unat (dimWidth dims))
                                      (\<lambda>index. rgbBytes rgbLut
                                                  (windowed16 src isSigned lut lutOffset index))
                               else fillRows result (unat (dimHeight dims)) (unat (dimWidth dims))
                                      (\<lambda>index. rgbBytes rgbLut (windowed8 src lut index)))"

text \<open>
  \<open>convertRgb\<close>: \<^verbatim>\<open>memcpy(dstRow, srcRow, rowBytes)\<close> for each row, a read out of bounds
  when the source row ends beyond the vector and a write through a null pointer when the
  image is null.
\<close>

definition copyRow :: "QImage option \<Rightarrow> u8 list \<Rightarrow> nat \<Rightarrow> nat \<Rightarrow> error + u8 list" where
  "copyRow result src rowBytes y =
     (let srcRow = size_t_wrap (y * rowBytes)
      in if length src < srcRow + rowBytes then Inl IndexOutOfRange
         else case result of
                None \<Rightarrow> Inl NullPointerWrite
              | Some q \<Rightarrow> Inr (take rowBytes (drop srcRow src)))"

definition convertRgb :: "'m CDicomImage \<Rightarrow> error + QImage option" where
  "convertRgb img =
     (let dims = dimensions img;
          src = pixelData img
      in if src = [] then Inr None
         else
           let result = newQImage (static_cast_int (dimWidth dims))
                          (static_cast_int (dimHeight dims)) Format_RGB888;
               expectedSize = size_t_wrap (size_t_wrap (unat (dimWidth dims) * unat (dimHeight dims)) * 3)
           in if length src < expectedSize then Inr None
              else
                let rowBytes = size_t_wrap (unat (dimWidth dims) * 3)
                in case mapE (copyRow result src rowBytes) [0..<unat (dimHeight dims)] of
                     Inl e \<Rightarrow> Inl e
                   | Inr rows \<Rightarrow> Inr (map_option (\<lambda>q. q\<lparr>qScanLines := rows\<rparr>) result))"

definition toQImage :: "CImageConverter \<Rightarrow> 'm CDicomImage \<Rightarrow> SWindowLevel \<Rightarrow> error + QImage option" where
  "toQImage converter dicomImage wl =
     (if \<not> isValid dicomImage then Inr None
      else case photometricInterpretation dicomImage of
             Monochrome1 \<Rightarrow> convertMonochrome converter dicomImage wl
           | Monochrome2 \<Rightarrow> convertMonochrome converter dicomImage wl
           | Rgb \<Rightarrow> convertRgb dicomImage
           | PaletteColor \<Rightarrow> Inr None
           | Unknown \<Rightarrow> Inr None)"

text \<open>
  The size that the two converters check the buffer against, \<open>expectedSize\<close> in both:
  three bytes for each pixel of an RGB image whatever the bit depth, and for a monochrome
  image two bytes for each pixel when \<open>bitsPerSample\<close> is 16 and one byte for any other
  value. Neither \<open>bitsAllocated\<close> nor \<open>samplesPerPixel\<close> is read.
\<close>

definition expectedSize :: "'m CDicomImage \<Rightarrow> nat" where
  "expectedSize img =
     unat (dimWidth (dimensions img)) * unat (dimHeight (dimensions img))
     * (if photometricInterpretation img = Rgb then 3
        else if bitsPerSample img = 16 then 2 else 1)"


section \<open>Example inputs\<close>

text \<open>
  Two small images on which the converters are evaluated below: an 8-bit Monochrome1
  image of two pixels in one row, with the samples 0 and 255, and an RGB image of one
  pixel in each of two rows. The example converter holds the default palette.
\<close>

definition exampleMonochrome1 :: "unit CDicomImage" where
  "exampleMonochrome1 =
     defaultImage
       \<lparr>m_pixelData := [0, 255],
        m_dimensions := \<lparr>dimWidth = 2, dimHeight = 1, bitsAllocated = 8, bitsStored = 8,
                         highBit = 7, samplesPerPixel = 1, dimIsSigned = False\<rparr>,
        m_photometricInterpretation := Monochrome1\<rparr>"

definition exampleRgb :: "unit CDicomImage" where
  "exampleRgb =
     defaultImage
       \<lparr>m_pixelData := [10, 20, 30, 40, 50, 60],
        m_dimensions := \<lparr>dimWidth = 1, dimHeight = 2, bitsAllocated = 8, bitsStored = 8,
                         highBit = 7, samplesPerPixel = 3, dimIsSigned = False\<rparr>,
        m_photometricInterpretation := Rgb\<rparr>"



definition exampleConverter :: CImageConverter where
  "exampleConverter = \<lparr>m_palette = grayscalePalette\<rparr>"

section \<open>CImageViewer: the paths that set the window/level (src/ui/CImageViewer.cpp)\<close>

text \<open>
  Of the widget only the members that these handlers read and write are kept: the image
  behind the shared pointer (\<open>None\<close> for a null pointer), the two drag flags and the
  last mouse position. Repainting, signals, the slider widgets and the pan offset are
  left out.
\<close>

record 'm CImageViewer =
  m_dicomImage :: "'m CDicomImage option"
  m_isAdjustingWindowLevel :: bool
  m_isPanning :: bool
  m_lastMousePos :: "int \<times> int"

definition kSensitivityWidth :: real where
  "kSensitivityWidth = 1"

definition kSensitivityCenter :: real where
  "kSensitivityCenter = 1"

text \<open>\<open>CImageViewer::setWindowLevel\<close>.\<close>

definition viewerSetWindowLevel :: "'m CImageViewer \<Rightarrow> SWindowLevel \<Rightarrow> 'm CImageViewer" where
  "viewerSetWindowLevel viewer wl =
     (case m_dicomImage viewer of
        None \<Rightarrow> viewer
      | Some img \<Rightarrow> viewer\<lparr>m_dicomImage := Some (setWindowLevel img wl)\<rparr>)"

text \<open>The two slots connected to the sliders in \<open>setupWindowLevelPanel\<close>.\<close>

definition centerSliderValueChanged :: "'m CImageViewer \<Rightarrow> int \<Rightarrow> 'm CImageViewer" where
  "centerSliderValueChanged viewer v =
     (case m_dicomImage viewer of
        None \<Rightarrow> viewer
      | Some img \<Rightarrow>
          let wl = windowLevel img;
              wl = wl\<lparr>center := real_of_int v\<rparr>
          in viewerSetWindowLevel viewer wl)"

definition widthSliderValueChanged :: "'m CImageViewer \<Rightarrow> int \<Rightarrow> 'm CImageViewer" where
  "widthSliderValueChanged viewer v =
     (case m_dicomImage viewer of
        None \<Rightarrow> viewer
      | Some img \<Rightarrow>
          let wl = windowLevel img;
              wl = wl\<lparr>width := max (real_of_int kMinWindowWidth) (real_of_int v)\<rparr>
          in viewerSetWindowLevel viewer wl)"

definition hasImage :: "'m CImageViewer \<Rightarrow> bool" where
  "hasImage viewer = (case m_dicomImage viewer of None \<Rightarrow> False | Some img \<Rightarrow> isValid img)"

definition mouseMoveEvent :: "'m CImageViewer \<Rightarrow> int \<times> int \<Rightarrow> 'm CImageViewer" where
  "mouseMoveEvent viewer pos =
     (if m_isPanning viewer \<and> hasImage viewer then viewer\<lparr>m_lastMousePos := pos\<rparr>
      else case m_dicomImage viewer of
             None \<Rightarrow> viewer
           | Some img \<Rightarrow>
               if \<not> m_isAdjustingWindowLevel viewer then viewer
               else
                 let deltaX = fst pos - fst (m_lastMousePos viewer);
                     deltaY = snd pos - snd (m_lastMousePos viewer);
                     wl = windowLevel img;
                     wl = wl\<lparr>width := width wl + real_of_int deltaX * kSensitivityWidth\<rparr>;
                     wl = wl\<lparr>width := max (real_of_int kMinWindowWidth) (width wl)\<rparr>;
                     wl = wl\<lparr>center := center wl - real_of_int deltaY * kSensitivityCenter\<rparr>
                 in viewer\<lparr>m_dicomImage := Some (setWindowLevel img wl), m_lastMousePos := pos\<rparr>)"

section \<open>Properties of the lookup table\<close>

lemma mapE_Inr:
  "(\<And>x. x \<in> set xs \<Longrightarrow> f x = Inr (g x)) \<Longrightarrow> mapE f xs = Inr (map g xs)"
  by (induction xs) simp_all

lemma window_product_bounds:
  fixes v lower w :: real
  assumes "0 < w" "lower < v" "v < lower + w"
  shows "0 < (v - lower) * (255 / w)" "(v - lower) * (255 / w) < 255"
proof -
  have pos: "0 < v - lower" using assms by simp
  show "0 < (v - lower) * (255 / w)" using pos assms(1) by simp
  have "(v - lower) / w < 1" using assms by simp
  then have "255 * ((v - lower) / w) < 255 * 1" by (rule mult_strict_left_mono) simp
  then show "(v - lower) * (255 / w) < 255" by (simp add: field_simps)
qed

lemma lutValue_spec:
  assumes "0 < w"
  shows "lutValue (c - w / 2) (c + w / 2) (255 / w) invert v
         = Inr (word_of_int (specLutEntry c w invert v))"
proof -
  let ?lower = "c - w / 2"
  consider (lo) "real_of_int v \<le> ?lower"
    | (hi) "\<not> real_of_int v \<le> ?lower" "real_of_int v \<ge> c + w / 2"
    | (mid) "\<not> real_of_int v \<le> ?lower" "\<not> real_of_int v \<ge> c + w / 2"
    by blast
  then show ?thesis
  proof cases
    case lo
    then show ?thesis by (simp add: lutValue_def specLutEntry_def)
  next
    case hi
    then show ?thesis by (simp add: lutValue_def specLutEntry_def)
  next
    case mid
    define p where "p = (real_of_int v - ?lower) * (255 / w)"
    have b: "0 < p" "p < 255"
      unfolding p_def
      using window_product_bounds [of w ?lower "real_of_int v"] assms mid by simp_all
    have f0: "0 \<le> \<lfloor>p\<rfloor>" using b(1) by simp
    have f1: "\<lfloor>p\<rfloor> \<le> 254" using b(2) by (simp add: floor_le_iff)
    have t: "truncate_toward_zero p = \<lfloor>p\<rfloor>"
      using b(1) by (simp add: truncate_toward_zero_def)
    have c: "static_cast_u8 p = Inr (word_of_int \<lfloor>p\<rfloor>)"
      unfolding static_cast_u8_def t Let_def using f0 f1 by simp
    have l: "lutValue ?lower (c + w / 2) (255 / w) invert v
             = (case static_cast_u8 p of
                  Inl e \<Rightarrow> Inl e
                | Inr x \<Rightarrow> Inr (if invert then 255 - x else x))"
      using mid unfolding lutValue_def Let_def p_def by (simp only: if_False)
    have s: "specLutEntry c w invert v = (if invert then 255 - \<lfloor>p\<rfloor> else \<lfloor>p\<rfloor>)"
      using mid unfolding specLutEntry_def Let_def p_def by (simp only: if_False)
    show ?thesis
      by (simp add: l c s)
  qed
qed


lemma upto_as_offsets:
  "[lo..hi] = map (\<lambda>i. lo + int i) [0..<nat (hi - lo + 1)]"
  by (rule nth_equalityI) simp_all

lemma buildWindowLevelLut_table:
  assumes "0 < width wl" and "\<bar>maxValue - minValue\<bar> < INT_MAX"
  shows "buildWindowLevelLut wl minValue maxValue invert
         = Inr (map (\<lambda>v. word_of_int (specLutEntry (center wl) (width wl) invert v))
                  [min minValue maxValue..max minValue maxValue])"
proof -
  let ?lo = "min minValue maxValue"
  let ?hi = "max minValue maxValue"
  let ?n = "nat (?hi - ?lo + 1)"
  let ?g = "\<lambda>i. word_of_int (specLutEntry (center wl) (width wl) invert (?lo + int i)) :: u8"
  have loop: "mapE (\<lambda>i. lutValue (center wl - width wl / 2) (center wl + width wl / 2)
                         (255 / width wl) invert (?lo + int i)) [0..<?n]
              = Inr (map ?g [0..<?n])"
    by (rule mapE_Inr) (simp add: lutValue_spec [OF assms(1)])
  have fits: "\<not> ?hi - ?lo + 1 > INT_MAX"
    using assms(2) by (auto simp: min_def max_def)
  have swap: "(if maxValue < minValue then maxValue else minValue) = ?lo"
       "(if maxValue < minValue then minValue else maxValue) = ?hi"
    by (simp_all add: min_def max_def)
  have "buildWindowLevelLut wl minValue maxValue invert = Inr (map ?g [0..<?n])"
    unfolding buildWindowLevelLut_def swap Let_def fdiv_def
    using assms(1) fits loop by simp
  also have "map ?g [0..<?n]
             = map (\<lambda>v. word_of_int (specLutEntry (center wl) (width wl) invert v)) [?lo..?hi]"
    by (simp add: upto_as_offsets [of ?lo ?hi] comp_def)
  finally show ?thesis .
qed


lemma bitLength_numeral:
  "bitLength 0 = 0"
  "bitLength 1 = 1"
  "bitLength (numeral (Num.Bit0 k)) = 1 + bitLength (numeral k)"
  "bitLength (numeral (Num.Bit1 k)) = 1 + bitLength (numeral k)"
proof -
  show "bitLength 0 = 0" by (simp add: bitLength.simps)
  show "bitLength 1 = 1" by (simp add: bitLength.simps [of 1] bitLength.simps [of 0])
  have "numeral (Num.Bit0 k) div (2 :: int) = numeral k" by simp
  then show "bitLength (numeral (Num.Bit0 k)) = 1 + bitLength (numeral k)"
    by (subst bitLength.simps) simp
  have "numeral (Num.Bit1 k) div (2 :: int) = numeral k" by simp
  then show "bitLength (numeral (Num.Bit1 k)) = 1 + bitLength (numeral k)"
    by (subst bitLength.simps) simp
qed

lemmas double_eval =
  roundDouble_def ilog2_def pow2_def roundHalfEven_def bitLength_numeral Let_def
  dsub_def dge_def double_of_int_def infinity_def

lemma mapE_map_sum:
  "map_sum id (map g) (mapE f xs) = mapE (\<lambda>x. map_sum id g (f x)) xs"
  by (induction xs) (auto split: sum.splits)

lemma mapE_map: "mapE f (map h xs) = mapE (\<lambda>x. f (h x)) xs"
  by (induction xs) (simp_all split: sum.splits)

lemma uint_u8_of_int:
  "0 \<le> t \<Longrightarrow> t \<le> 255 \<Longrightarrow> uint (word_of_int t :: u8) = t"
  "0 \<le> t \<Longrightarrow> t \<le> 255 \<Longrightarrow> uint (255 - word_of_int t :: u8) = 255 - t"
proof -
  assume a: "0 \<le> t" "t \<le> 255"
  then show "uint (word_of_int t :: u8) = t"
    by (simp add: uint_word_of_int take_bit_int_eq_self)
  have "255 - (word_of_int t :: u8) = word_of_int (255 - t)" by simp
  moreover have "uint (word_of_int (255 - t) :: u8) = 255 - t"
    using a by (simp only: uint_word_of_int) (simp add: take_bit_int_eq_self)
  ultimately show "uint (255 - word_of_int t :: u8) = 255 - t" by simp
qed

lemma cast_u8_double:
  "map_sum id uint (static_cast_u8_double d) = truncatedToU8 d"
  by (cases d) (simp_all add: static_cast_u8_def Let_def uint_u8_of_int)

lemma lutValueDouble_spec:
  "map_sum id uint
     (lutValueDouble (dsub (DFinite c) (ddiv (DFinite w) (DFinite 2)))
        (dadd (DFinite c) (ddiv (DFinite w) (DFinite 2)))
        (ddiv (DFinite 255) (DFinite w)) invert v)
   = specLutEntryDouble c w invert v"
proof -
  have inv: "map_sum id uint (case r of Inl e \<Rightarrow> Inl e
                              | Inr x \<Rightarrow> Inr (if invert then 255 - x else x))
             = (case map_sum id uint r of Inl e \<Rightarrow> Inl e
                | Inr t \<Rightarrow> Inr (if invert then 255 - t else t))"
    if "\<And>x. r = Inr x \<Longrightarrow> uint (255 - x) = 255 - uint x" for r :: "error + u8"
    using that by (cases r) auto
  have sub: "uint (255 - x) = 255 - uint x" for x :: u8
  proof -
    have "uint x \<le> 255" using uint_lt2p [of x] by simp
    from uint_u8_of_int(2) [OF _ this] show ?thesis by simp
  qed
  show ?thesis
    unfolding lutValueDouble_def specLutEntryDouble_def Let_def
    by (simp add: inv sub cast_u8_double split: sum.splits)
qed

text \<open>
  C1. For a window of positive width the table built by \<open>buildWindowLevelLut\<close>, in
  double arithmetic, is the table of the specification: one entry for each raw value of
  the domain, in increasing order; the entry for \<open>v\<close> is 0 for \<open>v \<le> lower\<close>, 255 for
  \<open>v \<ge> upper\<close> and otherwise the product \<open>(v - lower) * scale\<close> truncated toward zero
  and cast to \<open>u8\<close>, with \<open>lower\<close>, \<open>upper\<close>, \<open>scale\<close> and the product rounded as the
  doubles of the code are; with \<open>invert\<close> the entry is 255 minus that value, not clamped
  again. The build has no result exactly when the cast of one product has none, as for
  a width so small that \<open>scale\<close> is infinite (center 0, width \<open>2 ^ -1030\<close>, raw value
  0). The center and the width are finite, and the domain is any pair of C ints whose
  number of values fits an \<open>int\<close>.
\<close>

theorem buildWindowLevelLutDouble_matches_spec:
  assumes "0 < width wl" and "\<bar>maxValue - minValue\<bar> < INT_MAX"
  shows "map_sum id (map uint) (buildWindowLevelLutDouble wl minValue maxValue invert)
         = mapE (specLutEntryDouble (center wl) (width wl) invert)
             [min minValue maxValue..max minValue maxValue]"
proof -
  let ?lo = "min minValue maxValue"
  let ?hi = "max minValue maxValue"
  have fits: "\<not> ?hi - ?lo + 1 > INT_MAX"
    using assms(2) by (auto simp: min_def max_def)
  have swap: "(if maxValue < minValue then maxValue else minValue) = ?lo"
       "(if maxValue < minValue then minValue else maxValue) = ?hi"
    by (simp_all add: min_def max_def)
  have w: "\<not> width wl \<le> 0" "DFinite (width wl) \<noteq> DFinite 0" using assms(1) by simp_all
  have "map_sum id (map uint) (buildWindowLevelLutDouble wl minValue maxValue invert)
        = mapE (\<lambda>i. specLutEntryDouble (center wl) (width wl) invert (?lo + int i))
            [0..<nat (?hi - ?lo + 1)]"
    unfolding buildWindowLevelLutDouble_def swap Let_def fdivDouble_def
    using fits w
    by (simp add: mapE_map_sum lutValueDouble_spec del: ddiv.simps dadd.simps dmul.simps)
  also have "\<dots> = mapE (specLutEntryDouble (center wl) (width wl) invert) [?lo..?hi]"
    by (simp add: upto_as_offsets [of ?lo ?hi] mapE_map)
  finally show ?thesis .
qed

theorem buildWindowLevelLutDouble_matches_spec_witness:
  "0 < width \<lparr>center = 105, width = 210\<rparr> \<and> \<bar>44 - 40\<bar> < INT_MAX
   \<and> map_sum id (map uint) (buildWindowLevelLutDouble \<lparr>center = 105, width = 210\<rparr> 40 44 False)
       = Inr [48, 49, 50, 52, 53]
   \<and> 0 < width \<lparr>center = 100, width = 1 / 2 ^ 60\<rparr> \<and> \<bar>101 - 99\<bar> < INT_MAX
   \<and> map_sum id (map uint)
         (buildWindowLevelLutDouble \<lparr>center = 100, width = 1 / 2 ^ 60\<rparr> 99 101 True)
       = Inr [255, 255, 0]
   \<and> 0 < width \<lparr>center = 0, width = 1 / 2 ^ 1030\<rparr> \<and> \<bar>0 - 0\<bar> < INT_MAX
   \<and> map_sum id (map uint)
         (buildWindowLevelLutDouble \<lparr>center = 0, width = 1 / 2 ^ 1030\<rparr> 0 0 False)
       = Inl CastOutOfRange"
  using buildWindowLevelLutDouble_matches_spec
    [where wl = "\<lparr>center = 105, width = 210\<rparr>" and minValue = 40 and maxValue = 44
       and invert = False]
    buildWindowLevelLutDouble_matches_spec
    [where wl = "\<lparr>center = 100, width = 1 / 2 ^ 60\<rparr>" and minValue = 99 and maxValue = 101
       and invert = True]
    buildWindowLevelLutDouble_matches_spec
    [where wl = "\<lparr>center = 0, width = 1 / 2 ^ 1030\<rparr>" and minValue = 0 and maxValue = 0
       and invert = False]
  by (simp add: INT_MAX_def specLutEntryDouble_def upto.simps double_eval
      truncate_toward_zero_def)

text \<open>
  The two readings side by side. For a width that is not positive they are the same
  function. At the inputs that serve as examples in the statements on the exact reading,
  the entry in double arithmetic (the value of the loop body, by \<open>lutValueDouble_spec\<close>)
  is the entry of the exact reading; at center 105 and width 210 the raw value 42 has
  the entry 50 in double arithmetic and 51 on the exact reading
  (\<open>exact_reading_example\<close>).
\<close>

lemma buildWindowLevelLutDouble_nonpositive_width:
  "width wl \<le> 0 \<Longrightarrow>
   buildWindowLevelLutDouble wl minValue maxValue invert
   = buildWindowLevelLut wl minValue maxValue invert"
  by (simp add: buildWindowLevelLutDouble_def buildWindowLevelLut_def Let_def)

lemma double_reading_of_examples:
  "specLutEntryDouble 32768 65536 False 0 = Inr 0"
  "specLutEntryDouble 32768 65536 False 32768 = Inr 127"
  "specLutEntryDouble 32768 65536 False 65535 = Inr 254"
  "specLutEntryDouble 0 128 False 0 = Inr 127"
  "specLutEntryDouble 128 256 True 0 = Inr 255"
  "specLutEntryDouble 128 256 True 255 = Inr 1"
  "specLutEntryDouble 105 210 False 42 = Inr 50"
  by (simp_all add: specLutEntryDouble_def double_eval truncate_toward_zero_def)

lemma lutEntry_spec:
  assumes "0 < width wl" and "minValue \<le> maxValue" and "maxValue - minValue < INT_MAX"
    and "minValue \<le> v" and "v \<le> maxValue"
  shows "lutEntry wl minValue maxValue invert v
         = Inr (word_of_int (specLutEntry (center wl) (width wl) invert v))"
proof -
  have r: "\<bar>maxValue - minValue\<bar> < INT_MAX" using assms(2,3) by simp
  have i: "[minValue..maxValue] ! nat (v - minValue) = v"
    using assms(4,5) by simp
  show ?thesis
    using assms(2,4,5) i
    by (simp add: lutEntry_def buildWindowLevelLut_table [OF assms(1) r] lutAt_def
        min_def max_def)
qed

lemma exact_reading_example:
  "lutEntry \<lparr>center = 105, width = 210\<rparr> 40 44 False 42 = Inr 51"
  using lutEntry_spec
    [where wl = "\<lparr>center = 105, width = 210\<rparr>" and minValue = 40 and maxValue = 44
       and invert = False and v = 42]
  by (simp add: INT_MAX_def specLutEntry_def)




lemma buildWindowLevelLut_zero_table:
  assumes "width wl \<le> 0" and "\<bar>maxValue - minValue\<bar> < INT_MAX"
  shows "buildWindowLevelLut wl minValue maxValue invert
         = Inr (replicate (nat (\<bar>maxValue - minValue\<bar> + 1)) 0)"
proof -
  have "\<not> max minValue maxValue - min minValue maxValue + 1 > INT_MAX"
    using assms(2) by (auto simp: min_def max_def)
  moreover have "max minValue maxValue - min minValue maxValue = \<bar>maxValue - minValue\<bar>"
    by (simp add: min_def max_def)
  moreover have "(if maxValue < minValue then maxValue else minValue) = min minValue maxValue"
    "(if maxValue < minValue then minValue else maxValue) = max minValue maxValue"
    by (simp_all add: min_def max_def)
  ultimately show ?thesis
    unfolding buildWindowLevelLut_def Let_def using assms(1) by simp
qed

text \<open>
  C5. For a window of width 0 or less the table is blank: \<open>buildWindowLevelLut\<close> returns
  a table of the size of the domain whose entries are all 0, with and without inversion.
  The build returns before \<open>scale = 255 / width\<close>: in the model a division by zero is
  the result \<open>Inl DivisionByZero\<close> (second conjunct), and the result here is a table. The
  domain is any pair of C ints whose number of values fits an \<open>int\<close>.
\<close>

theorem buildWindowLevelLut_blank:
  assumes "width wl \<le> 0" and "\<bar>maxValue - minValue\<bar> < INT_MAX"
  shows "buildWindowLevelLut wl minValue maxValue invert
         = Inr (replicate (nat (\<bar>maxValue - minValue\<bar> + 1)) 0)
         \<and> fdiv 255 0 = Inl DivisionByZero"
  using buildWindowLevelLut_zero_table [OF assms] by (simp add: fdiv_def)

theorem buildWindowLevelLut_blank_witness:
  "width \<lparr>center = 40, width = 0\<rparr> \<le> 0 \<and> \<bar>32767 - (- 32768)\<bar> < INT_MAX
   \<and> buildWindowLevelLut \<lparr>center = 40, width = 0\<rparr> (- 32768) 32767 True
       = Inr (replicate 65536 0)"
  using buildWindowLevelLut_blank
    [where wl = "\<lparr>center = 40, width = 0\<rparr>" and minValue = "- 32768"
       and maxValue = 32767 and invert = True]
  by (simp add: INT_MAX_def)






section \<open>Window/level of the image and of the viewer\<close>

text \<open>
  C10. \<open>setDefaultWindowLevel\<close> sets the default and the current window/level to its
  argument, whatever the current one was. \<open>resetWindowLevel\<close> makes the current
  window/level the stored default and leaves the default, the pixel data, the dimensions,
  the photometric interpretation, the bits per sample, the signedness, the rescale slope
  and intercept and the metadata as they were.
\<close>

theorem setDefault_and_reset_windowLevel:
  "windowLevel (setDefaultWindowLevel img wl) = wl
   \<and> defaultWindowLevel (setDefaultWindowLevel img wl) = wl
   \<and> windowLevel (setDefaultWindowLevel (setWindowLevel img wl') wl) = wl
   \<and> windowLevel (resetWindowLevel img) = defaultWindowLevel img
   \<and> defaultWindowLevel (resetWindowLevel img) = defaultWindowLevel img
   \<and> pixelData (resetWindowLevel img) = pixelData img
   \<and> dimensions (resetWindowLevel img) = dimensions img
   \<and> photometricInterpretation (resetWindowLevel img) = photometricInterpretation img
   \<and> bitsPerSample (resetWindowLevel img) = bitsPerSample img
   \<and> isPixelSigned (resetWindowLevel img) = isPixelSigned img
   \<and> rescaleSlope (resetWindowLevel img) = rescaleSlope img
   \<and> rescaleIntercept (resetWindowLevel img) = rescaleIntercept img
   \<and> metadata (resetWindowLevel img) = metadata img
   \<and> resetWindowLevel img = img\<lparr>m_windowLevel := defaultWindowLevel img\<rparr>"
  by (simp add: setDefaultWindowLevel_def resetWindowLevel_def setWindowLevel_def
      windowLevel_def defaultWindowLevel_def pixelData_def dimensions_def
      photometricInterpretation_def bitsPerSample_def isPixelSigned_def rescaleSlope_def
      rescaleIntercept_def metadata_def)

text \<open>
  C8, as stated, fails: \<open>CDicomImage::setWindowLevel\<close> stores the value it is given. A
  width of one half set on the default-constructed image is the width the image then
  holds.
\<close>

theorem setWindowLevel_unclamped_counterexample:
  "width (windowLevel (setWindowLevel (defaultImage :: unit CDicomImage)
                         \<lparr>center = 0, width = 1 / 2\<rparr>)) = 1 / 2
   \<and> \<not> 1 \<le> width (windowLevel (setWindowLevel (defaultImage :: unit CDicomImage)
                                 \<lparr>center = 0, width = 1 / 2\<rparr>))"
  by (simp add: setWindowLevel_def windowLevel_def)

text \<open>
  C8, amended. The clamp is in the two handlers of the viewer that compute a width: after
  the slot of the width slider, and after a mouse move that adjusts the window/level (a
  drag that is not a pan), the width held by the image of the viewer is at least
  \<open>kMinWindowWidth = 1\<close>.
\<close>

theorem viewer_width_paths_clamp:
  assumes "m_dicomImage viewer = Some img"
  shows "(\<exists>img'. m_dicomImage (widthSliderValueChanged viewer v) = Some img'
            \<and> 1 \<le> width (windowLevel img'))
         \<and> (m_isAdjustingWindowLevel viewer \<and> \<not> m_isPanning viewer \<longrightarrow>
              (\<exists>img'. m_dicomImage (mouseMoveEvent viewer pos) = Some img'
                 \<and> 1 \<le> width (windowLevel img')))"
  using assms
  by (simp add: widthSliderValueChanged_def mouseMoveEvent_def viewerSetWindowLevel_def
      setWindowLevel_def windowLevel_def kMinWindowWidth_def Let_def)

theorem viewer_width_paths_clamp_witness:
  "m_dicomImage \<lparr>m_dicomImage = Some (defaultImage :: unit CDicomImage),
                  m_isAdjustingWindowLevel = True, m_isPanning = False,
                  m_lastMousePos = (10, 10)\<rparr> = Some defaultImage
   \<and> m_isAdjustingWindowLevel \<lparr>m_dicomImage = Some (defaultImage :: unit CDicomImage),
                  m_isAdjustingWindowLevel = True, m_isPanning = False,
                  m_lastMousePos = (10, 10)\<rparr>
   \<and> \<not> m_isPanning \<lparr>m_dicomImage = Some (defaultImage :: unit CDicomImage),
                  m_isAdjustingWindowLevel = True, m_isPanning = False,
                  m_lastMousePos = (10, 10)\<rparr>
   \<and> (\<exists>img'. m_dicomImage (widthSliderValueChanged
                  \<lparr>m_dicomImage = Some (defaultImage :: unit CDicomImage),
                   m_isAdjustingWindowLevel = True, m_isPanning = False,
                   m_lastMousePos = (10, 10)\<rparr> (- 5)) = Some img'
          \<and> 1 \<le> width (windowLevel img'))
   \<and> (\<exists>img'. m_dicomImage (mouseMoveEvent
                  \<lparr>m_dicomImage = Some (defaultImage :: unit CDicomImage),
                   m_isAdjustingWindowLevel = True, m_isPanning = False,
                   m_lastMousePos = (10, 10)\<rparr> (3, 10)) = Some img'
          \<and> 1 \<le> width (windowLevel img'))"
  using viewer_width_paths_clamp
    [where viewer = "\<lparr>m_dicomImage = Some (defaultImage :: unit CDicomImage),
                       m_isAdjustingWindowLevel = True, m_isPanning = False,
                       m_lastMousePos = (10, 10)\<rparr>"
       and img = defaultImage and v = "- 5" and pos = "(3, 10)"]
  by simp

section \<open>Properties of the converters\<close>

lemma sint_small:
  assumes "unat (w :: 32 word) < 2147483648"
  shows "sint w = int (unat w)"
proof -
  have "int (unat w) < 2147483648" using assms by linarith
  then have u: "uint w < 2147483648" by (simp only: uint_nat)
  have z: "0 \<le> uint w" by (rule uint_ge_0)
  have "- (2 ^ 31) \<le> (0 :: int)" by simp
  then have lo: "- (2 ^ 31) \<le> uint w" using z by (rule order_trans)
  have hi: "uint w < 2 ^ 31" using u by simp
  have "signed_take_bit 31 (uint w) = uint w"
    by (rule signed_take_bit_int_eq_self [OF lo hi])
  moreover have "sint w = signed_take_bit 31 (uint w)"
    using sint_uint [of w] by simp
  ultimately show ?thesis by (simp only: uint_nat)
qed

lemma s16_lo: "- 32768 \<le> sint (s :: 16 word)"
  using sint_ge [of s] by simp

lemma s16_hi: "sint (s :: 16 word) \<le> 32767"
  using sint_lt [of s] by simp

lemma u16_hi: "uint (s :: 16 word) \<le> 65535"
  using uint_lt2p [of s] by simp

lemma u8_hi: "uint (s :: 8 word) \<le> 255"
  using uint_lt2p [of s] by simp

lemma fillRows_Some:
  assumes "\<And>i. i < h * w \<Longrightarrow> pixel i = Inr (g i)"
  shows "fillRows (Some q) h w pixel
         = Inr (Some (q\<lparr>qScanLines := map (\<lambda>y. concat (map (\<lambda>x. g (y * w + x)) [0..<w])) [0..<h]\<rparr>))"
proof -
  have idx: "y * w + x < h * w" if "y < h" "x < w" for x y
  proof -
    have "y * w + x < y * w + w" using that by simp
    also have "\<dots> = Suc y * w" by simp
    also have "\<dots> \<le> h * w" using that(1) by (intro mult_le_mono1) simp
    finally show ?thesis .
  qed
  have row: "scanRow (Some q) w pixel y = Inr (concat (map (\<lambda>x. g (y * w + x)) [0..<w]))"
    if "y < h" for y
  proof -
    have "mapE (\<lambda>x. case pixel (y * w + x) of Inl e \<Rightarrow> Inl e
                     | Inr bytes \<Rightarrow> (case Some q of None \<Rightarrow> Inl NullPointerWrite | Some q \<Rightarrow> Inr bytes))
            [0..<w] = Inr (map (\<lambda>x. g (y * w + x)) [0..<w])"
      by (rule mapE_Inr) (simp add: assms idx that)
    then show ?thesis by (simp add: scanRow_def)
  qed
  have "mapE (scanRow (Some q) w pixel) [0..<h]
        = Inr (map (\<lambda>y. concat (map (\<lambda>x. g (y * w + x)) [0..<w])) [0..<h])"
    by (rule mapE_Inr) (simp add: row)
  then show ?thesis by (simp add: fillRows_def)
qed


lemma newQImage_Some:
  assumes "0 < wd" "0 < ht" "unat (wd :: 32 word) < 2147483648" "unat (ht :: 32 word) < 2147483648"
  shows "\<exists>rows0. newQImage (static_cast_int wd) (static_cast_int ht) fmt
         = Some \<lparr>qWidth = int (unat wd), qHeight = int (unat ht), qFormat = fmt,
                 qScanLines = rows0\<rparr>"
proof -
  have "0 < unat wd" "0 < unat ht" using assms(1,2) by (simp_all add: word_less_nat_alt)
  then have p: "\<not> (int (unat wd) \<le> 0 \<or> int (unat ht) \<le> 0)" by linarith
  show ?thesis
    unfolding newQImage_def static_cast_int_def sint_small [OF assms(3)] sint_small [OF assms(4)]
    using p by (simp only: if_False) blast
qed

lemma buildWindowLevelLut_length:
  assumes "\<bar>maxValue - minValue\<bar> < INT_MAX"
  shows "\<exists>lut. buildWindowLevelLut wl minValue maxValue invert = Inr lut
           \<and> length lut = nat (\<bar>maxValue - minValue\<bar> + 1)"
proof (cases "0 < width wl")
  case True
  have "nat (max minValue maxValue - min minValue maxValue + 1) = nat (\<bar>maxValue - minValue\<bar> + 1)"
    by (simp add: min_def max_def)
  then show ?thesis
    by (simp add: buildWindowLevelLut_table [OF True assms])
next
  case False
  then have "width wl \<le> 0" by simp
  then show ?thesis
    by (simp add: buildWindowLevelLut_zero_table [OF _ assms])
qed

lemma windowed8_Inr:
  assumes "index < length src" "length lut = 256"
  shows "windowed8 src lut index = Inr (lut ! unat (src ! index))"
  using assms u8_hi [of "src ! index"]
  by (simp add: windowed8_def readSample8_def lutAt_def)

lemma pixelValue16_in_domain:
  "fst (sampleDomain True sg) \<le> pixelValue16 sg s \<and> pixelValue16 sg s \<le> snd (sampleDomain True sg)"
proof (cases sg)
  case True
  then show ?thesis using s16_lo [of s] s16_hi [of s] by (simp add: sampleDomain_def pixelValue16_def)
next
  case False
  then show ?thesis using u16_hi [of s] by (simp add: sampleDomain_def pixelValue16_def)
qed

lemma sampleDomain_size:
  "snd (sampleDomain b sg) - fst (sampleDomain b sg) + 1 = (if b then 65536 else 256)"
  by (simp add: sampleDomain_def)



lemma size_t_small:
  assumes "a < 2147483648" "b < 2147483648" "k \<le> 3"
  shows "a * b * k < (2 :: nat) ^ 64"
proof -
  have "a * b \<le> 2147483648 * 2147483648"
    using assms(1,2) by (intro mult_le_mono less_imp_le)
  then have "a * b * k \<le> (2147483648 * 2147483648) * 3"
    using assms(3) by (rule mult_le_mono)
  then show ?thesis by simp
qed

lemma size_t_wrap_small:
  assumes "a < 2147483648" "b < 2147483648" "k \<le> 3"
  shows "size_t_wrap (a * b * k) = a * b * k"
  unfolding size_t_wrap_def using size_t_small [OF assms] by simp


lemma index_in_buffer:
  assumes "i < h * w" "\<not> length (src :: 'a list) < w * h * k" "0 < k"
  shows "k * i + (k - 1) < length src"
proof -
  have "k * i + (k - 1) < k * i + k" using assms(3) by simp
  also have "\<dots> = k * Suc i" by simp
  also have "\<dots> \<le> k * (h * w)" using assms(1) by (intro mult_le_mono2) simp
  also have "\<dots> = w * h * k" by (simp add: ac_simps)
  also have "\<dots> \<le> length src" using assms(2) by simp
  finally show ?thesis .
qed



lemma concat_rows:
  assumes "h * n \<le> length (xs :: 'a list)"
  shows "concat (map (\<lambda>y. take n (drop (y * n) xs)) [0..<h]) = take (h * n) xs"
  using assms
proof (induction h)
  case 0
  then show ?case by simp
next
  case (Suc h)
  let ?f = "\<lambda>y. take n (drop (y * n) xs)"
  from Suc have ih: "concat (map ?f [0..<h]) = take (h * n) xs" by simp
  have "concat (map ?f [0..<Suc h]) = concat (map ?f [0..<h]) @ ?f h" by simp
  also have "\<dots> = take (h * n) xs @ take n (drop (h * n) xs)" by (simp only: ih)
  also have "\<dots> = take (h * n + n) xs" by (rule take_add [symmetric])
  also have "h * n + n = Suc h * n" by simp
  finally show ?case .
qed

lemma convertRgb_copy:
  fixes img :: "'m CDicomImage"
  assumes ne: "pixelData img \<noteq> []"
    and wpos: "0 < dimWidth (dimensions img)" and hpos: "0 < dimHeight (dimensions img)"
    and wfit: "unat (dimWidth (dimensions img)) < 2147483648"
    and hfit: "unat (dimHeight (dimensions img)) < 2147483648"
    and size: "\<not> length (pixelData img)
                 < unat (dimWidth (dimensions img)) * unat (dimHeight (dimensions img)) * 3"
  shows "convertRgb img
         = Inr (Some \<lparr>qWidth = int (unat (dimWidth (dimensions img))),
                      qHeight = int (unat (dimHeight (dimensions img))),
                      qFormat = Format_RGB888,
                      qScanLines = map (\<lambda>y. take (unat (dimWidth (dimensions img)) * 3)
                                              (drop (y * (unat (dimWidth (dimensions img)) * 3))
                                                 (pixelData img)))
                                     [0..<unat (dimHeight (dimensions img))]\<rparr>)"
proof -
  let ?W = "unat (dimWidth (dimensions img))"
  let ?H = "unat (dimHeight (dimensions img))"
  let ?src = "pixelData img"
  have w1: "size_t_wrap (?W * ?H) = ?W * ?H"
    using size_t_wrap_small [OF wfit hfit, of 1] by simp
  have w3: "size_t_wrap (?W * ?H * 3) = ?W * ?H * 3"
    using size_t_wrap_small [OF wfit hfit, of 3] by simp
  have rb: "size_t_wrap (?W * 3) = ?W * 3"
    using size_t_wrap_small [of ?W 1 3] wfit by simp
  have yr: "size_t_wrap (y * (?W * 3)) = y * (?W * 3)" if "y < ?H" for y
  proof -
    have "y < 2147483648" using that hfit by simp
    from size_t_wrap_small [OF this wfit, of 3] show ?thesis by (simp add: ac_simps)
  qed
  obtain r0 where q: "newQImage (static_cast_int (dimWidth (dimensions img)))
      (static_cast_int (dimHeight (dimensions img))) Format_RGB888
      = Some \<lparr>qWidth = int ?W, qHeight = int ?H, qFormat = Format_RGB888, qScanLines = r0\<rparr>"
    using newQImage_Some [OF wpos hpos wfit hfit] by blast
  have inb: "\<not> length ?src < y * (?W * 3) + ?W * 3" if "y < ?H" for y
  proof -
    have "y * (?W * 3) + ?W * 3 = Suc y * (?W * 3)" by simp
    also have "\<dots> \<le> ?H * (?W * 3)" using that by (intro mult_le_mono1) simp
    also have "\<dots> = ?W * ?H * 3" by (simp add: ac_simps)
    also have "\<dots> \<le> length ?src" using size by simp
    finally show ?thesis by simp
  qed
  have rows: "mapE (copyRow (Some q) ?src (?W * 3)) [0..<?H]
              = Inr (map (\<lambda>y. take (?W * 3) (drop (y * (?W * 3)) ?src)) [0..<?H])" for q
    by (rule mapE_Inr) (simp add: copyRow_def yr inb)
  show ?thesis
    unfolding convertRgb_def Let_def
    using ne size by (simp add: w1 w3 rb q rows)
qed

lemma convertMonochrome_gray8:
  fixes img :: "'m CDicomImage"
  assumes ne: "pixelData img \<noteq> []"
    and wpos: "0 < dimWidth (dimensions img)" and hpos: "0 < dimHeight (dimensions img)"
    and wfit: "unat (dimWidth (dimensions img)) < 2147483648"
    and hfit: "unat (dimHeight (dimensions img)) < 2147483648"
    and b8: "bitsPerSample img \<noteq> 16"
    and size: "\<not> length (pixelData img)
                 < unat (dimWidth (dimensions img)) * unat (dimHeight (dimensions img))"
    and pal: "m_type (m_palette converter) = Grayscale"
    and lut: "buildWindowLevelLut wl 0 255 (photometricInterpretation img = Monochrome1) = Inr lut"
  shows "convertMonochrome converter img wl
         = Inr (Some \<lparr>qWidth = int (unat (dimWidth (dimensions img))),
                      qHeight = int (unat (dimHeight (dimensions img))),
                      qFormat = Format_Grayscale8,
                      qScanLines = map (\<lambda>y. map (\<lambda>x. lut ! unat (pixelData img
                                                   ! (y * unat (dimWidth (dimensions img)) + x)))
                                                [0..<unat (dimWidth (dimensions img))])
                                     [0..<unat (dimHeight (dimensions img))]\<rparr>)"
proof -
  let ?W = "unat (dimWidth (dimensions img))"
  let ?H = "unat (dimHeight (dimensions img))"
  let ?src = "pixelData img"
  have w1: "size_t_wrap (?W * ?H) = ?W * ?H"
    using size_t_wrap_small [OF wfit hfit, of 1] by simp
  have len: "length lut = 256"
    using buildWindowLevelLut_length [of 255 0 wl "photometricInterpretation img = Monochrome1"] lut
    by (simp add: INT_MAX_def)
  obtain rg where qg: "newQImage (static_cast_int (dimWidth (dimensions img)))
      (static_cast_int (dimHeight (dimensions img))) Format_Grayscale8
      = Some \<lparr>qWidth = int ?W, qHeight = int ?H, qFormat = Format_Grayscale8, qScanLines = rg\<rparr>"
    using newQImage_Some [OF wpos hpos wfit hfit] by blast
  have px: "grayBytes (windowed8 ?src lut i) = Inr [lut ! unat (?src ! i)]" if "i < ?H * ?W" for i
  proof -
    have "1 * i + (1 - 1) < length ?src"
      using size that by (intro index_in_buffer [of i ?H ?W]) simp_all
    then have "i < length ?src" by simp
    from windowed8_Inr [OF this len] show ?thesis by (simp add: grayBytes_def)
  qed
  note f = fillRows_Some [of ?H ?W "\<lambda>i. grayBytes (windowed8 ?src lut i)"
      "\<lambda>i. [lut ! unat (?src ! i)]", OF px]
  show ?thesis
    unfolding convertMonochrome_def Let_def
    using ne size b8 pal lut
    by (simp add: w1 qg f sampleDomain_def)
qed

lemma buildWindowLevelLut_nth:
  assumes "0 < width wl" and "minValue \<le> maxValue" and "maxValue - minValue < INT_MAX"
    and "buildWindowLevelLut wl minValue maxValue invert = Inr lut"
    and "minValue \<le> v" and "v \<le> maxValue"
  shows "lut ! nat (v - minValue) = word_of_int (specLutEntry (center wl) (width wl) invert v)"
proof -
  have "lutEntry wl minValue maxValue invert v = lutAt lut (v + (- minValue))"
    by (simp add: lutEntry_def assms(4))
  moreover have "\<bar>maxValue - minValue\<bar> < INT_MAX" using assms(2,3) by simp
  from buildWindowLevelLut_length [OF this, of wl invert] assms(4)
  have "length lut = nat (\<bar>maxValue - minValue\<bar> + 1)" by simp
  then have "lutAt lut (v + (- minValue)) = Inr (lut ! nat (v - minValue))"
    using assms(2,5,6) by (simp add: lutAt_def)
  ultimately show ?thesis
    using lutEntry_spec [OF assms(1,2,3,5,6), of invert] by simp
qed



lemma isValid_parts:
  assumes "isValid img"
  shows "pixelData img \<noteq> []" "0 < dimWidth (dimensions img)" "0 < dimHeight (dimensions img)"
    "photometricInterpretation img \<noteq> Unknown"
  using assms
  by (simp_all add: isValid_def hasPixelData_def pixelData_def dimensions_def
      photometricInterpretation_def)

lemma mapE_Inl:
  "mapE f xs = Inl e \<Longrightarrow> \<exists>x \<in> set xs. f x = Inl e"
  by (induction xs) (auto split: sum.splits)

lemma scanRow_Inl:
  assumes "scanRow result w pixel y = Inl e"
  shows "e = NullPointerWrite \<or> (\<exists>i. pixel i = Inl e)"
proof -
  let ?f = "\<lambda>x. case pixel (y * w + x) of
                  Inl e \<Rightarrow> Inl e
                | Inr bytes \<Rightarrow> (case result of None \<Rightarrow> Inl NullPointerWrite | Some q \<Rightarrow> Inr bytes)"
  from assms have "mapE ?f [0..<w] = Inl e"
    by (simp add: scanRow_def Let_def split: sum.splits)
  from mapE_Inl [OF this] obtain x where "?f x = Inl e" by blast
  then show ?thesis by (auto split: sum.splits option.splits)
qed

lemma fillRows_Inl:
  assumes "fillRows result h w pixel = Inl e"
  shows "e = NullPointerWrite \<or> (\<exists>i. pixel i = Inl e)"
proof -
  from assms have "mapE (scanRow result w pixel) [0..<h] = Inl e"
    by (simp add: fillRows_def split: sum.splits)
  from mapE_Inl [OF this] obtain y where "scanRow result w pixel y = Inl e" by blast
  then show ?thesis by (rule scanRow_Inl)
qed

lemma grayBytes_Inl: "grayBytes r = Inl e \<Longrightarrow> r = Inl e"
  by (simp add: grayBytes_def split: sum.splits)

lemma rgbBytes_Inl: "rgbBytes f r = Inl e \<Longrightarrow> r = Inl e"
  by (simp add: rgbBytes_def split: sum.splits prod.splits)

lemma readSample16_Inl: "readSample16 src index = Inl e \<Longrightarrow> e = IndexOutOfRange"
  by (simp add: readSample16_def split: if_splits)

lemma readSample8_Inl: "readSample8 src index = Inl e \<Longrightarrow> e = IndexOutOfRange"
  by (simp add: readSample8_def split: if_splits)

lemma windowed16_lookup:
  assumes "length lut = 65536" and "readSample16 src index = Inr s"
  shows "0 \<le> pixelValue16 sg s + (- fst (sampleDomain True sg))"
    "pixelValue16 sg s + (- fst (sampleDomain True sg))
       \<le> snd (sampleDomain True sg) - fst (sampleDomain True sg)"
    "windowed16 src sg lut (- fst (sampleDomain True sg)) index
       = Inr (lut ! nat (pixelValue16 sg s + (- fst (sampleDomain True sg))))"
proof -
  have d: "0 \<le> pixelValue16 sg s + (- fst (sampleDomain True sg))
           \<and> pixelValue16 sg s + (- fst (sampleDomain True sg)) < 65536"
    using pixelValue16_in_domain [of sg s] sampleDomain_size [of True sg] by simp
  show "0 \<le> pixelValue16 sg s + (- fst (sampleDomain True sg))" using d by simp
  show "pixelValue16 sg s + (- fst (sampleDomain True sg))
        \<le> snd (sampleDomain True sg) - fst (sampleDomain True sg)"
    using pixelValue16_in_domain [of sg s] by simp
  show "windowed16 src sg lut (- fst (sampleDomain True sg)) index
        = Inr (lut ! nat (pixelValue16 sg s + (- fst (sampleDomain True sg))))"
    using d assms by (simp add: windowed16_def lutAt_def)
qed

lemma windowed8_lookup:
  assumes "length lut = 256" and "readSample8 src index = Inr s"
  shows "0 \<le> uint s" "uint s \<le> snd (sampleDomain False sg) - fst (sampleDomain False sg)"
    "windowed8 src lut index = Inr (lut ! nat (uint s))"
  using assms u8_hi [of s]
  by (simp_all add: windowed8_def lutAt_def sampleDomain_def)

lemma windowed16_Inl:
  assumes "length lut = 65536"
    and "windowed16 src sg lut (- fst (sampleDomain True sg)) index = Inl e"
  shows "e = IndexOutOfRange"
proof (cases "readSample16 src index")
  case (Inl e')
  then show ?thesis using assms(2) readSample16_Inl [OF Inl] by (simp add: windowed16_def)
next
  case (Inr s)
  from windowed16_lookup(3) [OF assms(1) Inr, of sg] assms(2) show ?thesis by simp
qed

lemma windowed8_Inl:
  assumes "length lut = 256" and "windowed8 src lut index = Inl e"
  shows "e = IndexOutOfRange"
proof (cases "readSample8 src index")
  case (Inl e')
  then show ?thesis using assms(2) readSample8_Inl [OF Inl] by (simp add: windowed8_def)
next
  case (Inr s)
  from windowed8_lookup(3) [OF assms(1) Inr] assms(2) show ?thesis by simp
qed

lemma sampleDomain_lut:
  "\<exists>lut. buildWindowLevelLut wl (fst (sampleDomain b sg)) (snd (sampleDomain b sg)) invert = Inr lut
         \<and> length lut = nat (snd (sampleDomain b sg) - fst (sampleDomain b sg) + 1)
         \<and> length lut = (if b then 65536 else 256)"
proof -
  have dom: "\<bar>snd (sampleDomain b sg) - fst (sampleDomain b sg)\<bar> < INT_MAX"
    "fst (sampleDomain b sg) \<le> snd (sampleDomain b sg)"
    by (simp_all add: sampleDomain_def INT_MAX_def)
  from buildWindowLevelLut_length [OF dom(1), of wl invert] dom(2)
  show ?thesis by (auto simp: sampleDomain_def)
qed

lemma convertMonochrome_Inl:
  fixes img :: "'m CDicomImage"
  assumes "convertMonochrome converter img wl = Inl e"
  shows "e = NullPointerWrite \<or> e = IndexOutOfRange"
proof -
  let ?b16 = "bitsPerSample img = 16"
  let ?sg = "isPixelSigned img"
  let ?inv = "photometricInterpretation img = Monochrome1"
  obtain lut where lut: "buildWindowLevelLut wl (fst (sampleDomain ?b16 ?sg))
      (snd (sampleDomain ?b16 ?sg)) ?inv = Inr lut"
    and len: "length lut = (if ?b16 then 65536 else 256)"
    using sampleDomain_lut [of wl ?b16 ?sg ?inv] by blast
  let ?H = "unat (dimHeight (dimensions img))"
  let ?W = "unat (dimWidth (dimensions img))"
  from assms obtain result pixel where f: "fillRows result ?H ?W pixel = Inl e"
    and p: "pixel = (\<lambda>i. grayBytes (windowed16 (pixelData img) ?sg lut
                                     (- fst (sampleDomain ?b16 ?sg)) i)) \<and> ?b16
            \<or> pixel = (\<lambda>i. grayBytes (windowed8 (pixelData img) lut i)) \<and> \<not> ?b16
            \<or> pixel = (\<lambda>i. rgbBytes (mapRgb (m_palette converter))
                             (windowed16 (pixelData img) ?sg lut
                                (- fst (sampleDomain ?b16 ?sg)) i)) \<and> ?b16
            \<or> pixel = (\<lambda>i. rgbBytes (mapRgb (m_palette converter))
                             (windowed8 (pixelData img) lut i)) \<and> \<not> ?b16"
    unfolding convertMonochrome_def Let_def
    by (auto simp: lut split: if_splits)
  from fillRows_Inl [OF f] consider "e = NullPointerWrite" | i where "pixel i = Inl e" by blast
  then show ?thesis
  proof cases
    case 1
    then show ?thesis by simp
  next
    case 2
    have g: "r = Inl e" if "grayBytes r = Inl e \<or> rgbBytes (mapRgb (m_palette converter)) r = Inl e"
      for r
      using that grayBytes_Inl rgbBytes_Inl by blast
    from p 2 consider
      (w16) "?b16" "windowed16 (pixelData img) ?sg lut (- fst (sampleDomain ?b16 ?sg)) i = Inl e"
      | (w8) "\<not> ?b16" "windowed8 (pixelData img) lut i = Inl e"
      using g by fastforce
    then show ?thesis
    proof cases
      case w16
      then have "windowed16 (pixelData img) ?sg lut (- fst (sampleDomain True ?sg)) i = Inl e"
        by simp
      moreover have "length lut = 65536" using len w16(1) by simp
      ultimately show ?thesis using windowed16_Inl by blast
    next
      case w8
      moreover have "length lut = 256" using len w8(1) by simp
      ultimately show ?thesis using windowed8_Inl by blast
    qed
  qed
qed


text \<open>
  C9. In \<open>convertMonochrome\<close> every lookup in the table is in bounds. The conversion of
  any image, with any converter and window/level, never ends in a read outside the table
  (\<open>LutIndexOutOfRange\<close>). For the 16-bit domains, signed and unsigned, and for the 8-bit
  domain the table is built with one entry for each value of the domain; every sample
  that the conversion reads from the buffer (\<open>readSample16\<close>, \<open>readSample8\<close>) lies in
  its domain, the index \<open>pixelValue + lutOffset\<close> with \<open>lutOffset = -minValue\<close> lies in
  \<open>[0, maxValue - minValue]\<close>, and the lookup of the conversion (\<open>windowed16\<close>,
  \<open>windowed8\<close>) returns the entry of the table at that index.
\<close>

theorem convertMonochrome_lut_index_in_bounds:
  fixes img :: "'m CDicomImage"
  shows "convertMonochrome converter img wl \<noteq> Inl LutIndexOutOfRange
         \<and> (\<exists>lut. buildWindowLevelLut wl (fst (sampleDomain True isSigned))
                     (snd (sampleDomain True isSigned)) invert = Inr lut
                \<and> length lut
                  = nat (snd (sampleDomain True isSigned) - fst (sampleDomain True isSigned) + 1)
                \<and> (\<forall>src index s. readSample16 src index = Inr s \<longrightarrow>
                      fst (sampleDomain True isSigned) \<le> pixelValue16 isSigned s
                      \<and> pixelValue16 isSigned s \<le> snd (sampleDomain True isSigned)
                      \<and> 0 \<le> pixelValue16 isSigned s + (- fst (sampleDomain True isSigned))
                      \<and> pixelValue16 isSigned s + (- fst (sampleDomain True isSigned))
                        \<le> snd (sampleDomain True isSigned) - fst (sampleDomain True isSigned)
                      \<and> windowed16 src isSigned lut (- fst (sampleDomain True isSigned)) index
                        = Inr (lut ! nat (pixelValue16 isSigned s
                                          + (- fst (sampleDomain True isSigned))))))
         \<and> (\<exists>lut. buildWindowLevelLut wl (fst (sampleDomain False isSigned))
                     (snd (sampleDomain False isSigned)) invert = Inr lut
                \<and> length lut
                  = nat (snd (sampleDomain False isSigned) - fst (sampleDomain False isSigned) + 1)
                \<and> (\<forall>src index s. readSample8 src index = Inr s \<longrightarrow>
                      fst (sampleDomain False isSigned) \<le> uint s
                      \<and> uint s \<le> snd (sampleDomain False isSigned)
                      \<and> uint s \<le> snd (sampleDomain False isSigned)
                                  - fst (sampleDomain False isSigned)
                      \<and> windowed8 src lut index = Inr (lut ! nat (uint s))))"
proof (intro conjI)
  show "convertMonochrome converter img wl \<noteq> Inl LutIndexOutOfRange"
    using convertMonochrome_Inl [of converter img wl LutIndexOutOfRange] by auto
next
  obtain lut where lut: "buildWindowLevelLut wl (fst (sampleDomain True isSigned))
      (snd (sampleDomain True isSigned)) invert = Inr lut"
    and l1: "length lut
             = nat (snd (sampleDomain True isSigned) - fst (sampleDomain True isSigned) + 1)"
    and l2: "length lut = 65536"
    using sampleDomain_lut [of wl True isSigned invert] by auto
  show "\<exists>lut. buildWindowLevelLut wl (fst (sampleDomain True isSigned))
                     (snd (sampleDomain True isSigned)) invert = Inr lut
                \<and> length lut
                  = nat (snd (sampleDomain True isSigned) - fst (sampleDomain True isSigned) + 1)
                \<and> (\<forall>src index s. readSample16 src index = Inr s \<longrightarrow>
                      fst (sampleDomain True isSigned) \<le> pixelValue16 isSigned s
                      \<and> pixelValue16 isSigned s \<le> snd (sampleDomain True isSigned)
                      \<and> 0 \<le> pixelValue16 isSigned s + (- fst (sampleDomain True isSigned))
                      \<and> pixelValue16 isSigned s + (- fst (sampleDomain True isSigned))
                        \<le> snd (sampleDomain True isSigned) - fst (sampleDomain True isSigned)
                      \<and> windowed16 src isSigned lut (- fst (sampleDomain True isSigned)) index
                        = Inr (lut ! nat (pixelValue16 isSigned s
                                          + (- fst (sampleDomain True isSigned)))))"
    using lut l1 windowed16_lookup [OF l2] pixelValue16_in_domain [of isSigned]
    by (intro exI [of _ lut]) blast
next
  obtain lut where lut: "buildWindowLevelLut wl (fst (sampleDomain False isSigned))
      (snd (sampleDomain False isSigned)) invert = Inr lut"
    and l1: "length lut
             = nat (snd (sampleDomain False isSigned) - fst (sampleDomain False isSigned) + 1)"
    and l2: "length lut = 256"
    using sampleDomain_lut [of wl False isSigned invert] by auto
  have d: "fst (sampleDomain False isSigned) \<le> uint s \<and> uint s \<le> snd (sampleDomain False isSigned)"
    for s :: u8
    using u8_hi [of s] by (simp add: sampleDomain_def)
  show "\<exists>lut. buildWindowLevelLut wl (fst (sampleDomain False isSigned))
                     (snd (sampleDomain False isSigned)) invert = Inr lut
                \<and> length lut
                  = nat (snd (sampleDomain False isSigned) - fst (sampleDomain False isSigned) + 1)
                \<and> (\<forall>src index s. readSample8 src index = Inr s \<longrightarrow>
                      fst (sampleDomain False isSigned) \<le> uint s
                      \<and> uint s \<le> snd (sampleDomain False isSigned)
                      \<and> uint s \<le> snd (sampleDomain False isSigned)
                                  - fst (sampleDomain False isSigned)
                      \<and> windowed8 src lut index = Inr (lut ! nat (uint s)))"
    using lut l1 windowed8_lookup [OF l2] d
    by (intro exI [of _ lut]) blast
qed

theorem convertMonochrome_lut_index_in_bounds_witness:
  "convertMonochrome exampleConverter exampleMonochrome1 \<lparr>center = 128, width = 256\<rparr>
     \<noteq> Inl LutIndexOutOfRange
   \<and> (\<exists>lut. buildWindowLevelLut \<lparr>center = 40, width = 400\<rparr> (- 32768) 32767 False = Inr lut
          \<and> length lut = 65536
          \<and> readSample16 [255, 255] 0 = Inr (- 1)
          \<and> windowed16 [255, 255] True lut 32768 0 = Inr (lut ! 32767))"
proof -
  have r: "readSample16 [255, 255] 0 = Inr (- 1)"
    by (simp add: readSample16_def)
  from convertMonochrome_lut_index_in_bounds
    [where wl = "\<lparr>center = 40, width = 400\<rparr>" and isSigned = True and invert = False
       and converter = exampleConverter and img = exampleMonochrome1]
  have c: "convertMonochrome exampleConverter exampleMonochrome1 \<lparr>center = 40, width = 400\<rparr>
           \<noteq> Inl LutIndexOutOfRange"
    and "\<exists>lut. buildWindowLevelLut \<lparr>center = 40, width = 400\<rparr> (- 32768) 32767 False = Inr lut
          \<and> length lut = 65536
          \<and> (\<forall>src index s. readSample16 src index = Inr s \<longrightarrow>
                windowed16 src True lut 32768 index
                = Inr (lut ! nat (pixelValue16 True s + 32768)))"
    by (auto simp: sampleDomain_def)
  then obtain lut where b: "buildWindowLevelLut \<lparr>center = 40, width = 400\<rparr> (- 32768) 32767 False = Inr lut"
    and l: "length lut = 65536"
    and w: "\<forall>src index s. readSample16 src index = Inr s \<longrightarrow>
              windowed16 src True lut 32768 index = Inr (lut ! nat (pixelValue16 True s + 32768))"
    by blast
  from w [rule_format, OF r] have "windowed16 [255, 255] True lut 32768 0 = Inr (lut ! 32767)"
    by (simp add: pixelValue16_def)
  moreover have "convertMonochrome exampleConverter exampleMonochrome1 \<lparr>center = 128, width = 256\<rparr>
                 \<noteq> Inl LutIndexOutOfRange"
    using convertMonochrome_lut_index_in_bounds
      [where wl = "\<lparr>center = 128, width = 256\<rparr>" and converter = exampleConverter
         and img = exampleMonochrome1]
    by blast
  ultimately show ?thesis using b l r by blast
qed


lemma toQImage_monochrome:
  assumes "isValid img"
    and "photometricInterpretation img = Monochrome1 \<or> photometricInterpretation img = Monochrome2"
  shows "toQImage converter img wl = convertMonochrome converter img wl"
  using assms by (auto simp: toQImage_def)

lemma toQImage_rgb:
  assumes "isValid img" and "photometricInterpretation img = Rgb"
  shows "toQImage converter img wl = convertRgb img"
  using assms by (simp add: toQImage_def)





lemma exampleMonochrome1_facts:
  "isValid exampleMonochrome1"
  "photometricInterpretation exampleMonochrome1 = Monochrome1"
  "pixelData exampleMonochrome1 = [0, 255]"
  "dimWidth (dimensions exampleMonochrome1) = 2"
  "dimHeight (dimensions exampleMonochrome1) = 1"
  "bitsPerSample exampleMonochrome1 = 8"
  "expectedSize exampleMonochrome1 = 2"
  by (simp_all add: exampleMonochrome1_def defaultImage_def isValid_def hasPixelData_def
      photometricInterpretation_def pixelData_def dimensions_def bitsPerSample_def
      expectedSize_def)


text \<open>
  C7. For a valid image whose photometric interpretation is \<open>Rgb\<close> and whose buffer
  holds at least \<open>width * height * 3\<close> bytes, \<open>toQImage\<close> returns an image of format
  \<open>Format_RGB888\<close> with the dimensions of the source, whose scan line \<open>y\<close> is the
  \<open>width * 3\<close> bytes of the source from offset \<open>y * width * 3\<close>: the scan lines, one
  after the other, are the first \<open>width * height * 3\<close> bytes of the source. The result
  is the same for any other converter (palette) and window/level. The switch is on the
  photometric interpretation and \<open>samplesPerPixel\<close> is not read, so this holds in
  particular when \<open>samplesPerPixel\<close> is 3.
\<close>

theorem toQImage_rgb_verbatim:
  fixes img :: "'m CDicomImage"
  assumes valid: "isValid img" and rgb: "photometricInterpretation img = Rgb"
    and wfit: "unat (dimWidth (dimensions img)) < 2 ^ 31"
    and hfit: "unat (dimHeight (dimensions img)) < 2 ^ 31"
    and size: "unat (dimWidth (dimensions img)) * unat (dimHeight (dimensions img)) * 3
               \<le> length (pixelData img)"
  shows "\<exists>q. toQImage converter img wl = Inr (Some q)
           \<and> qFormat q = Format_RGB888
           \<and> qWidth q = int (unat (dimWidth (dimensions img)))
           \<and> qHeight q = int (unat (dimHeight (dimensions img)))
           \<and> qScanLines q
               = map (\<lambda>y. take (unat (dimWidth (dimensions img)) * 3)
                           (drop (y * (unat (dimWidth (dimensions img)) * 3)) (pixelData img)))
                   [0..<unat (dimHeight (dimensions img))]
           \<and> concat (qScanLines q)
               = take (unat (dimWidth (dimensions img)) * unat (dimHeight (dimensions img)) * 3)
                   (pixelData img)
           \<and> toQImage converter' img wl' = toQImage converter img wl"
proof -
  let ?W = "unat (dimWidth (dimensions img))"
  let ?H = "unat (dimHeight (dimensions img))"
  note v = isValid_parts [OF valid]
  have wf: "?W < 2147483648" "?H < 2147483648" using wfit hfit by simp_all
  have sz: "\<not> length (pixelData img) < ?W * ?H * 3" using size by simp
  note c = convertRgb_copy [OF v(1,2,3) wf sz]
  have "?H * (?W * 3) \<le> length (pixelData img)" using size by (simp add: ac_simps)
  from concat_rows [OF this]
  have cc: "concat (map (\<lambda>y. take (?W * 3) (drop (y * (?W * 3)) (pixelData img))) [0..<?H])
            = take (?W * ?H * 3) (pixelData img)"
    by (simp add: ac_simps)
  show ?thesis
    by (simp add: toQImage_rgb [OF valid rgb] c cc)
qed

lemma exampleRgb_facts:
  "isValid exampleRgb"
  "photometricInterpretation exampleRgb = Rgb"
  "pixelData exampleRgb = [10, 20, 30, 40, 50, 60]"
  "dimWidth (dimensions exampleRgb) = 1"
  "dimHeight (dimensions exampleRgb) = 2"
  by (simp_all add: exampleRgb_def defaultImage_def isValid_def hasPixelData_def
      photometricInterpretation_def pixelData_def dimensions_def)

theorem toQImage_rgb_verbatim_witness:
  "isValid exampleRgb \<and> photometricInterpretation exampleRgb = Rgb
   \<and> unat (dimWidth (dimensions exampleRgb)) < 2 ^ 31
   \<and> unat (dimHeight (dimensions exampleRgb)) < 2 ^ 31
   \<and> unat (dimWidth (dimensions exampleRgb)) * unat (dimHeight (dimensions exampleRgb)) * 3
       \<le> length (pixelData exampleRgb)
   \<and> (\<exists>q. toQImage exampleConverter exampleRgb \<lparr>center = 128, width = 256\<rparr> = Inr (Some q)
          \<and> qFormat q = Format_RGB888
          \<and> qScanLines q = [[10, 20, 30], [40, 50, 60]])"
proof -
  have two: "[0..<2] = [0, Suc 0]" by (simp add: upt_rec)
  show ?thesis
    using toQImage_rgb_verbatim
      [where img = exampleRgb and converter = exampleConverter
         and wl = "\<lparr>center = 128, width = 256\<rparr>"]
    by (auto simp: exampleRgb_facts two)
qed

lemma full_window_entries:
  assumes "buildWindowLevelLut \<lparr>center = 128, width = 256\<rparr> 0 255 True = Inr lut"
  shows "lut ! 0 = 255" "lut ! 255 = 1"
  using buildWindowLevelLut_nth
      [where wl = "\<lparr>center = 128, width = 256\<rparr>" and minValue = 0 and maxValue = 255
         and invert = True and lut = lut and v = 0]
    buildWindowLevelLut_nth
      [where wl = "\<lparr>center = 128, width = 256\<rparr>" and minValue = 0 and maxValue = 255
         and invert = True and lut = lut and v = 255]
    assms
  by (simp_all add: INT_MAX_def specLutEntry_def)

text \<open>
  C3, as stated, fails. With center 128 and width 256 the upper bound of the window is
  256, so the raw sample 255 is inside the window: its entry is \<open>255 * 255 / 256\<close>
  rounded down, 254, and 1 after the inversion. The 8-bit Monochrome1 example image with
  the samples 0 and 255 is displayed as 255 and 1.
\<close>

theorem monochrome1_full_window_counterexample:
  "toQImage exampleConverter exampleMonochrome1 \<lparr>center = 128, width = 256\<rparr>
   = Inr (Some \<lparr>qWidth = 2, qHeight = 1, qFormat = Format_Grayscale8,
                qScanLines = [[255, 1]]\<rparr>)"
proof -
  obtain lut where lut: "buildWindowLevelLut \<lparr>center = 128, width = 256\<rparr> 0 255 True = Inr lut"
    using buildWindowLevelLut_length [of 255 0 "\<lparr>center = 128, width = 256\<rparr>" True]
    by (auto simp: INT_MAX_def)
  note e = full_window_entries [OF lut]
  have two: "[0..<2] = [0, Suc 0]" by (simp add: upt_rec)
  have "convertMonochrome exampleConverter exampleMonochrome1 \<lparr>center = 128, width = 256\<rparr>
        = Inr (Some \<lparr>qWidth = 2, qHeight = 1, qFormat = Format_Grayscale8,
                     qScanLines = [[255, 1]]\<rparr>)"
    using convertMonochrome_gray8
      [where img = exampleMonochrome1 and converter = exampleConverter
         and wl = "\<lparr>center = 128, width = 256\<rparr>" and lut = lut]
      lut
    by (simp add: exampleMonochrome1_facts exampleConverter_def grayscalePalette_def two e)
  then show ?thesis
    by (simp add: toQImage_monochrome exampleMonochrome1_facts)
qed

text \<open>
  C3, amended. For an 8-bit Monochrome1 image converted with center 128 and width 256
  (and so with inversion), the raw sample 0 maps to the display value 255 and the raw
  sample 255 maps to the display value 1: in the table, and in every pixel of the
  \<open>Format_Grayscale8\<close> image that \<open>toQImage\<close> returns with the grayscale palette.
\<close>

theorem monochrome1_full_window:
  fixes img :: "'m CDicomImage"
  assumes valid: "isValid img" and m1: "photometricInterpretation img = Monochrome1"
    and b8: "bitsPerSample img = 8"
    and pal: "m_type (m_palette converter) = Grayscale"
    and wfit: "unat (dimWidth (dimensions img)) < 2 ^ 31"
    and hfit: "unat (dimHeight (dimensions img)) < 2 ^ 31"
    and size: "unat (dimWidth (dimensions img)) * unat (dimHeight (dimensions img))
               \<le> length (pixelData img)"
  shows "lutEntry \<lparr>center = 128, width = 256\<rparr> 0 255 True 0 = Inr 255
         \<and> lutEntry \<lparr>center = 128, width = 256\<rparr> 0 255 True 255 = Inr 1
         \<and> (\<exists>q. toQImage converter img \<lparr>center = 128, width = 256\<rparr> = Inr (Some q)
               \<and> qFormat q = Format_Grayscale8
               \<and> (\<forall>y x. y < unat (dimHeight (dimensions img))
                          \<and> x < unat (dimWidth (dimensions img)) \<longrightarrow>
                     (pixelData img ! (y * unat (dimWidth (dimensions img)) + x) = 0
                        \<longrightarrow> qScanLines q ! y ! x = 255)
                     \<and> (pixelData img ! (y * unat (dimWidth (dimensions img)) + x) = 255
                        \<longrightarrow> qScanLines q ! y ! x = 1)))"
proof -
  let ?W = "unat (dimWidth (dimensions img))"
  let ?H = "unat (dimHeight (dimensions img))"
  let ?wl = "\<lparr>center = 128, width = 256\<rparr>"
  note v = isValid_parts [OF valid]
  have wf: "?W < 2147483648" "?H < 2147483648" using wfit hfit by simp_all
  have sz: "\<not> length (pixelData img) < ?W * ?H" using size by simp
  have n16: "bitsPerSample img \<noteq> 16" using b8 by simp
  obtain lut where lut: "buildWindowLevelLut ?wl 0 255 True = Inr lut"
    using buildWindowLevelLut_length [of 255 0 ?wl True] by (auto simp: INT_MAX_def)
  note e = full_window_entries [OF lut]
  have lut': "buildWindowLevelLut ?wl 0 255 (photometricInterpretation img = Monochrome1) = Inr lut"
    using lut m1 by simp
  note c = convertMonochrome_gray8 [OF v(1,2,3) wf n16 sz pal lut']
  have le: "lutEntry ?wl 0 255 True 0 = Inr 255" "lutEntry ?wl 0 255 True 255 = Inr 1"
    using lutEntry_spec [where wl = ?wl and minValue = 0 and maxValue = 255 and invert = True
        and v = 0]
      lutEntry_spec [where wl = ?wl and minValue = 0 and maxValue = 255 and invert = True
        and v = 255]
    by (simp_all add: INT_MAX_def specLutEntry_def)
  have px: "(pixelData img ! (y * ?W + x) = 0 \<longrightarrow> lut ! unat (pixelData img ! (y * ?W + x)) = 255)
            \<and> (pixelData img ! (y * ?W + x) = 255 \<longrightarrow> lut ! unat (pixelData img ! (y * ?W + x)) = 1)"
    for x y
    using e by auto
  show ?thesis
    using px by (simp add: le toQImage_monochrome [OF valid] m1 c)
qed

theorem monochrome1_full_window_witness:
  "isValid exampleMonochrome1 \<and> photometricInterpretation exampleMonochrome1 = Monochrome1
   \<and> bitsPerSample exampleMonochrome1 = 8
   \<and> m_type (m_palette exampleConverter) = Grayscale
   \<and> unat (dimWidth (dimensions exampleMonochrome1)) < 2 ^ 31
   \<and> unat (dimHeight (dimensions exampleMonochrome1)) < 2 ^ 31
   \<and> unat (dimWidth (dimensions exampleMonochrome1)) * unat (dimHeight (dimensions exampleMonochrome1))
       \<le> length (pixelData exampleMonochrome1)
   \<and> (\<exists>q. toQImage exampleConverter exampleMonochrome1 \<lparr>center = 128, width = 256\<rparr> = Inr (Some q)
          \<and> qScanLines q ! 0 ! 0 = 255 \<and> qScanLines q ! 0 ! 1 = 1)"
proof -
  from monochrome1_full_window
    [where img = exampleMonochrome1 and converter = exampleConverter]
  obtain q where q: "toQImage exampleConverter exampleMonochrome1 \<lparr>center = 128, width = 256\<rparr>
      = Inr (Some q)"
    and p: "\<forall>y x. y < 1 \<and> x < 2 \<longrightarrow>
             (([0, 255] :: u8 list) ! (y * 2 + x) = 0 \<longrightarrow> qScanLines q ! y ! x = 255)
             \<and> (([0, 255] :: u8 list) ! (y * 2 + x) = 255 \<longrightarrow> qScanLines q ! y ! x = 1)"
    by (auto simp: exampleMonochrome1_facts exampleConverter_def grayscalePalette_def)
  from p [rule_format, of 0 0] p [rule_format, of 0 1]
  have "qScanLines q ! 0 ! 0 = 255" "qScanLines q ! 0 ! 1 = 1" by simp_all
  with q show ?thesis
    by (auto simp: exampleMonochrome1_facts exampleConverter_def grayscalePalette_def)
qed

end
